theory Spec2Isabelle
  imports Main "HOL-Library.Word"
begin

unbundle bit_operations_syntax

section \<open>JavaScript strings and values\<close>

text \<open>
  Strings are lists of characters. The scraper only inspects ASCII punctuation, so one
  \<^typ>\<open>char\<close> stands for one code unit of a JavaScript string. Characters that clash
  with the quoting of this file are given by their code.
\<close>

definition dquote :: char where "dquote = CHR 0x22"
definition squote :: char where "squote = CHR 0x27"
definition backslash :: char where "backslash = CHR 0x5C"
definition backtick :: char where "backtick = CHR 0x60"
definition dollar :: char where "dollar = CHR 0x24"

text \<open>\<open>a || b\<close> on strings: the empty string is falsy.\<close>

definition js_or :: "string \<Rightarrow> string \<Rightarrow> string" where
  "js_or a b = (if a = [] then b else a)"

text \<open>\<open>String.prototype.includes\<close>: does \<open>sub\<close> occur in \<open>s\<close>?\<close>

fun str_includes :: "string \<Rightarrow> string \<Rightarrow> bool" where
  "str_includes [] sub = (sub = [])"
| "str_includes (x # xs) sub = (take (length sub) (x # xs) = sub \<or> str_includes xs sub)"

text \<open>\<open>Number.prototype.toString\<close> of an integer, in decimal.\<close>

definition digit_char :: "int \<Rightarrow> char" where
  "digit_char d = ''0123456789'' ! nat d"

function dec_pos :: "int \<Rightarrow> string" where
  "dec_pos n = (if n < 10 then [digit_char n] else dec_pos (n div 10) @ [digit_char (n mod 10)])"
  by pat_completeness auto
termination
  by (relation "measure nat") auto

definition dec :: "int \<Rightarrow> string" where
  "dec n = (if n < 0 then CHR ''-'' # dec_pos (- n) else dec_pos n)"

section \<open>Objects with string keys\<close>

text \<open>
  A plain object used as a dictionary is the list of its own properties in creation
  order. Assigning to an existing key keeps its place; assigning a string to the key
  \<open>__proto__\<close> of an object literal goes to the inherited setter, which ignores
  values that are not objects, so no property appears.
\<close>

type_synonym js_object = "(string \<times> string) list"

definition obj_get :: "js_object \<Rightarrow> string \<Rightarrow> string option" where
  "obj_get m k = map_of m k"

definition obj_keys :: "js_object \<Rightarrow> string list" where
  "obj_keys m = map fst m"

definition obj_set :: "js_object \<Rightarrow> string \<Rightarrow> string \<Rightarrow> js_object" where
  "obj_set m k v =
     (if k = ''__proto__'' then m
      else if k \<in> set (map fst m) then map (\<lambda>(k', v'). if k' = k then (k', v) else (k', v')) m
      else m @ [(k, v)])"

text \<open>
  \<open>Object.entries\<close> lists the keys that are array indices first, in ascending numeric
  order, and then the other keys in creation order. An array index is the canonical
  decimal form of an integer below \<open>2^32 - 1\<close>.
\<close>

definition digits_value :: "string \<Rightarrow> int" where
  "digits_value s = foldl (\<lambda>acc c. 10 * acc + int (length (takeWhile (\<lambda>d. d \<noteq> c) ''0123456789''))) 0 s"

definition is_array_index :: "string \<Rightarrow> bool" where
  "is_array_index k \<longleftrightarrow>
     k \<noteq> [] \<and> list_all (\<lambda>c. c \<in> set ''0123456789'') k \<and>
     (k = ''0'' \<or> hd k \<noteq> CHR ''0'') \<and> digits_value k < 4294967295"

definition object_entries :: "js_object \<Rightarrow> (string \<times> string) list" where
  "object_entries m =
     sort_key (\<lambda>(k, v). digits_value k) (filter (\<lambda>(k, v). is_array_index k) m) @
     filter (\<lambda>(k, v). \<not> is_array_index k) m"

section \<open>Regular expressions and \<open>String.prototype.replace\<close>\<close>

text \<open>
  The scraper builds its patterns from three kinds of items only: a literal character, a
  character class such as \<open>['"]\<close>, and an optional character class such as \<open>['"]?\<close>.
\<close>

datatype ratom = Lit char | OneOf "char list" | Opt "char list"

text \<open>
  Backtracking match of a pattern at the start of a string; the result is the text after
  the match. An optional class is greedy: it takes the character when it can and gives
  it back when the rest of the pattern fails.
\<close>

fun rmatch :: "ratom list \<Rightarrow> string \<Rightarrow> string option" where
  "rmatch [] s = Some s"
| "rmatch (Lit c # ps) s =
     (case s of [] \<Rightarrow> None | x # xs \<Rightarrow> if x = c then rmatch ps xs else None)"
| "rmatch (OneOf cs # ps) s =
     (case s of [] \<Rightarrow> None | x # xs \<Rightarrow> if x \<in> set cs then rmatch ps xs else None)"
| "rmatch (Opt cs # ps) s =
     (case s of
        [] \<Rightarrow> rmatch ps []
      | x # xs \<Rightarrow>
          if x \<in> set cs
          then (case rmatch ps xs of Some r \<Rightarrow> Some r | None \<Rightarrow> rmatch ps (x # xs))
          else rmatch ps (x # xs))"

text \<open>
  The replacement text of \<open>replace\<close> for a pattern without capture groups:
  \<open>$$\<close> is a dollar sign, \<open>$&\<close> the matched text, \<open>$`\<close> the text before the match and
  \<open>$'\<close> the text after it; any other dollar sign stands for itself.
\<close>

fun get_substitution :: "string \<Rightarrow> string \<Rightarrow> string \<Rightarrow> string \<Rightarrow> string" where
  "get_substitution matched preceding following (c # d # r) =
     (if c = dollar then
        (if d = dollar then dollar # get_substitution matched preceding following r
         else if d = CHR ''&'' then matched @ get_substitution matched preceding following r
         else if d = backtick then preceding @ get_substitution matched preceding following r
         else if d = squote then following @ get_substitution matched preceding following r
         else c # get_substitution matched preceding following (d # r))
      else c # get_substitution matched preceding following (d # r))"
| "get_substitution matched preceding following r = r"

text \<open>
  \<open>s.replace(new RegExp(p, 'g'), template)\<close>: scan from the left, replace every match
  and go on after it. \<open>pre\<close> holds, reversed, the part of the string already passed.
  Every pattern of the scraper starts with a literal character or a class, so it never
  matches the empty string; an empty match is treated as no match.
\<close>

function replace_from :: "ratom list \<Rightarrow> string \<Rightarrow> string \<Rightarrow> string \<Rightarrow> string" where
  "replace_from p template pre [] = []"
| "replace_from p template pre (x # xs) =
     (case rmatch p (x # xs) of
        None \<Rightarrow> x # replace_from p template (x # pre) xs
      | Some rest \<Rightarrow>
          if length rest < Suc (length xs)
          then get_substitution (take (Suc (length xs) - length rest) (x # xs)) (rev pre) rest template
               @ replace_from p template (rev (take (Suc (length xs) - length rest) (x # xs)) @ pre) rest
          else x # replace_from p template (x # pre) xs)"
  by pat_completeness auto
termination
  by (relation "measure (\<lambda>(p, template, pre, s). length s)") auto

definition js_replace_all :: "ratom list \<Rightarrow> string \<Rightarrow> string \<Rightarrow> string" where
  "js_replace_all p template s = replace_from p template [] s"

section \<open>The URL rewriter\<close>

text \<open>
  The characters of the class \<open>[.*+?^${}()|[\]\\]\<close>, and the two quotes of \<open>['"]\<close>.
\<close>

definition regex_specials :: "char list" where
  "regex_specials = ''.*+?^${}()|[]'' @ [backslash]"

definition quotes :: "char list" where
  "quotes = [squote, dquote]"

text \<open>
  A piece of pattern source in which every special character is escaped: a backslash
  makes the next character literal, any other character is literal.
\<close>

fun compile_escaped :: "string \<Rightarrow> ratom list" where
  "compile_escaped (c # d # r) =
     (if c = backslash then Lit d # compile_escaped r else Lit c # compile_escaped (d # r))"
| "compile_escaped [c] = [Lit c]"
| "compile_escaped [] = []"

text \<open>
  \<open>AssetMapper.replaceAssetUrls\<close> of \<open>src/tools/scraper.js\<close>. The escaping is written
  inline there: \<open>originalUrl.replace(/[.*+?^${}()|[\]\\]/g, '\\$&')\<close>.
\<close>

definition AssetMapper_replace_one :: "string \<Rightarrow> string \<times> string \<Rightarrow> string" where
  "AssetMapper_replace_one modifiedHtml entry =
     (case entry of (originalUrl, localPath) \<Rightarrow>
        let escapedUrl = js_replace_all [OneOf regex_specials] [backslash, dollar, CHR ''&''] originalUrl;
            h1 = js_replace_all
                   (map Lit ''src='' @ [OneOf quotes] @ compile_escaped escapedUrl @ [OneOf quotes])
                   (''src='' @ [dquote] @ localPath @ [dquote]) modifiedHtml;
            h2 = js_replace_all
                   (map Lit ''href='' @ [OneOf quotes] @ compile_escaped escapedUrl @ [OneOf quotes])
                   (''href='' @ [dquote] @ localPath @ [dquote]) h1
        in js_replace_all
             (map Lit ''url('' @ [Opt quotes] @ compile_escaped escapedUrl @ [Opt quotes, Lit CHR '')''])
             (''url('' @ [dquote] @ localPath @ [dquote] @ '')'') h2)"

definition AssetMapper_replaceAssetUrls :: "string \<Rightarrow> js_object \<Rightarrow> string" where
  "AssetMapper_replaceAssetUrls html assetMapping =
     foldl AssetMapper_replace_one html (object_entries assetMapping)"

text \<open>
  The standalone \<open>replaceAssetUrls\<close> of \<open>src/cli.js\<close>, with its helper
  \<open>escapeRegExp\<close>.
\<close>

definition escapeRegExp :: "string \<Rightarrow> string" where
  "escapeRegExp string = js_replace_all [OneOf regex_specials] [backslash, dollar, CHR ''&''] string"

definition cli_replace_one :: "string \<Rightarrow> string \<times> string \<Rightarrow> string" where
  "cli_replace_one modifiedHtml entry =
     (case entry of (originalUrl, localPath) \<Rightarrow>
        let escapedUrl = escapeRegExp originalUrl;
            h1 = js_replace_all
                   (map Lit ''src='' @ [OneOf quotes] @ compile_escaped escapedUrl @ [OneOf quotes])
                   (''src='' @ [dquote] @ localPath @ [dquote]) modifiedHtml;
            h2 = js_replace_all
                   (map Lit ''href='' @ [OneOf quotes] @ compile_escaped escapedUrl @ [OneOf quotes])
                   (''href='' @ [dquote] @ localPath @ [dquote]) h1
        in js_replace_all
             (map Lit ''url('' @ [Opt quotes] @ compile_escaped escapedUrl @ [Opt quotes, Lit CHR '')''])
             (''url('' @ [dquote] @ localPath @ [dquote] @ '')'') h2)"

definition cli_replaceAssetUrls :: "string \<Rightarrow> js_object \<Rightarrow> string" where
  "cli_replaceAssetUrls html assetMapping =
     foldl cli_replace_one html (object_entries assetMapping)"

subsection \<open>What the escaping does\<close>

lemma rmatch_length: "rmatch p s = Some r \<Longrightarrow> length r \<le> length s"
proof (induction p s arbitrary: r rule: rmatch.induct)
  case (1 s)
  then show ?case by simp
next
  case (2 c ps s)
  then show ?case by (cases s) (auto split: if_splits intro: le_SucI)
next
  case (3 cs ps s)
  then show ?case by (cases s) (auto split: if_splits intro: le_SucI)
next
  case (4 cs ps s)
  then show ?case by (cases s) (auto split: if_splits option.splits intro: le_SucI)
qed

lemma escape_from:
  "replace_from [OneOf regex_specials] [backslash, dollar, CHR ''&''] pre s =
     concat (map (\<lambda>c. if c \<in> set regex_specials then [backslash, c] else [c]) s)"
  by (induction s arbitrary: pre) (simp_all add: dollar_def backslash_def)

lemma escapeRegExp_eq:
  "escapeRegExp s = concat (map (\<lambda>c. if c \<in> set regex_specials then [backslash, c] else [c]) s)"
  by (simp add: escapeRegExp_def js_replace_all_def escape_from)

lemma compile_escaped_escape:
  "compile_escaped (concat (map (\<lambda>c. if c \<in> set regex_specials then [backslash, c] else [c]) s))
     = map Lit s"
proof (induction s)
  case Nil
  then show ?case by simp
next
  case (Cons a s)
  show ?case
  proof (cases s)
    case Nil
    then show ?thesis by (simp add: regex_specials_def backslash_def)
  next
    case (Cons b t)
    with Cons.IH show ?thesis by (auto simp: regex_specials_def backslash_def)
  qed
qed

lemma compile_escapeRegExp: "compile_escaped (escapeRegExp u) = map Lit u"
  by (simp add: escapeRegExp_eq compile_escaped_escape)

subsection \<open>The rewriter on an empty mapping, and the two rewriters compared\<close>

text \<open>
  C9. If the asset mapping given to the URL rewriter has no entries, the rewriter returns
  the markup it was given, character for character.
\<close>

theorem replaceAssetUrls_empty_mapping:
  "AssetMapper_replaceAssetUrls html [] = html"
  by (simp add: AssetMapper_replaceAssetUrls_def object_entries_def)

text \<open>
  C10. The rewriter of \<open>src/tools/scraper.js\<close> and the rewriter of \<open>src/cli.js\<close>
  return the same markup for every markup string and every asset mapping.
\<close>

theorem replaceAssetUrls_scraper_eq_cli:
  "AssetMapper_replaceAssetUrls html assetMapping = cli_replaceAssetUrls html assetMapping"
proof -
  have "AssetMapper_replace_one = cli_replace_one"
    by (intro ext) (simp add: AssetMapper_replace_one_def cli_replace_one_def escapeRegExp_def)
  then show ?thesis
    by (simp add: AssetMapper_replaceAssetUrls_def cli_replaceAssetUrls_def)
qed

section \<open>Library functions the downloader calls\<close>

subsection \<open>\<open>path.extname\<close>, \<open>path.basename\<close> and \<open>path.join\<close> (POSIX)\<close>

text \<open>
  The last component of a path: trailing slashes are skipped, then everything after the
  last remaining slash is taken.
\<close>

definition last_component :: "string \<Rightarrow> string" where
  "last_component p =
     rev (takeWhile (\<lambda>c. c \<noteq> CHR ''/'') (dropWhile (\<lambda>c. c = CHR ''/'') (rev p)))"

definition trailing_slashes :: "string \<Rightarrow> string" where
  "trailing_slashes p = takeWhile (\<lambda>c. c = CHR ''/'') (rev p)"

text \<open>
  \<open>path.extname\<close>: from the last dot of the last component to its end; empty when the
  component has no dot, starts with its only dot, or is \<open>..\<close>.
\<close>

definition extname :: "string \<Rightarrow> string" where
  "extname p =
     (let c = last_component p;
          after_dot = rev (takeWhile (\<lambda>x. x \<noteq> CHR ''.'') (rev c));
          before_dot = rev (drop 1 (dropWhile (\<lambda>x. x \<noteq> CHR ''.'') (rev c)))
      in if CHR ''.'' \<notin> set c \<or> before_dot = [] \<or> c = ''..'' then []
         else CHR ''.'' # after_dot)"

text \<open>
  \<open>path.basename(p, ext)\<close>: the last component, without \<open>ext\<close> when the component ends
  with it and is longer. Node's loop gives up the trimming of trailing slashes when the
  component is a proper end of \<open>ext\<close>; the model keeps that.
\<close>

definition basename :: "string \<Rightarrow> string \<Rightarrow> string" where
  "basename p ext =
     (let c = last_component p in
      if ext = [] \<or> length p < length ext then c
      else if ext = p then []
      else if length ext < length c \<and> drop (length c - length ext) c = ext
        then take (length c - length ext) c
      else if length c < length ext \<and> drop (length ext - length c) ext = c
        then c @ trailing_slashes p
      else c)"

text \<open>
  \<open>path.join\<close>: the non-empty segments, joined by a slash. The normalisation of
  \<open>.\<close>, \<open>..\<close> and repeated slashes is not modelled, so an output directory such as
  \<open>./scraped-data\<close> keeps its leading \<open>./\<close> here; the segments the scraper joins
  below the output directory are fixed names and a generated file name.
\<close>

fun join_segments :: "string list \<Rightarrow> string" where
  "join_segments [] = []"
| "join_segments [s] = s"
| "join_segments (s # t # r) = s @ ''/'' @ join_segments (t # r)"

definition path_join :: "string list \<Rightarrow> string" where
  "path_join segs =
     (let ne = filter (\<lambda>s. s \<noteq> []) segs in if ne = [] then ''.'' else join_segments ne)"

subsection \<open>\<open>new URL(s)\<close>\<close>

text \<open>
  The parts of a parsed URL that the scraper reads. The parser follows the WHATWG URL
  standard for the shape \<open>scheme:[//authority]path[?query][#fragment]\<close> only: it
  does not trim white space, validate or lower-case the host, validate the port or drop
  a default port, percent-encode, or remove dot segments. The asset URLs it is applied
  to are already serialised by the browser. \<open>None\<close> stands for the \<open>TypeError\<close>
  (Invalid URL) that the constructor throws.
\<close>

record url_obj =
  protocol :: string
  host :: string
  hostname :: string
  pathname :: string

definition ascii_lower :: "char \<Rightarrow> char" where
  "ascii_lower c =
     (case map_of (zip ''ABCDEFGHIJKLMNOPQRSTUVWXYZ'' ''abcdefghijklmnopqrstuvwxyz'') c of
        Some l \<Rightarrow> l | None \<Rightarrow> c)"

definition is_alpha :: "char \<Rightarrow> bool" where
  "is_alpha c \<longleftrightarrow> c \<in> set ''ABCDEFGHIJKLMNOPQRSTUVWXYZabcdefghijklmnopqrstuvwxyz''"

definition is_scheme_char :: "char \<Rightarrow> bool" where
  "is_scheme_char c \<longleftrightarrow> is_alpha c \<or> c \<in> set ''0123456789+-.''"

definition special_schemes :: "string list" where
  "special_schemes = [''http:'', ''https:'', ''ftp:'', ''ws:'', ''wss:'']"

definition after_last_at :: "string \<Rightarrow> string" where
  "after_last_at a = rev (takeWhile (\<lambda>c. c \<noteq> CHR ''@'') (rev a))"

definition parse_url :: "string \<Rightarrow> url_obj option" where
  "parse_url s =
     (let scheme = takeWhile (\<lambda>c. c \<noteq> CHR '':'') s;
          rest = drop (Suc (length scheme)) s;
          proto = map ascii_lower scheme @ '':''
      in if length scheme = length s \<or> scheme = [] \<or> \<not> is_alpha (hd scheme)
            \<or> \<not> list_all is_scheme_char scheme
         then None
         else if proto \<in> set special_schemes then
           (let r = dropWhile (\<lambda>c. c = CHR ''/'' \<or> c = backslash) rest;
                stop = (\<lambda>c. c = CHR ''/'' \<or> c = backslash \<or> c = CHR ''?'' \<or> c = CHR ''#'');
                h = after_last_at (takeWhile (\<lambda>c. \<not> stop c) r);
                p = takeWhile (\<lambda>c. c \<noteq> CHR ''?'' \<and> c \<noteq> CHR ''#'') (dropWhile (\<lambda>c. \<not> stop c) r)
            in if takeWhile (\<lambda>c. c \<noteq> CHR '':'') h = [] then None
               else Some \<lparr>protocol = proto, host = h,
                          hostname = takeWhile (\<lambda>c. c \<noteq> CHR '':'') h,
                          pathname = (if p = [] then ''/'' else p)\<rparr>)
         else if take 2 rest = ''//'' then
           (let r = drop 2 rest;
                stop = (\<lambda>c. c = CHR ''/'' \<or> c = CHR ''?'' \<or> c = CHR ''#'');
                h = after_last_at (takeWhile (\<lambda>c. \<not> stop c) r)
            in Some \<lparr>protocol = proto, host = h,
                     hostname = takeWhile (\<lambda>c. c \<noteq> CHR '':'') h,
                     pathname = takeWhile (\<lambda>c. c \<noteq> CHR ''?'' \<and> c \<noteq> CHR ''#'')
                                  (dropWhile (\<lambda>c. \<not> stop c) r)\<rparr>)
         else Some \<lparr>protocol = proto, host = [], hostname = [],
                    pathname = takeWhile (\<lambda>c. c \<noteq> CHR ''?'' \<and> c \<noteq> CHR ''#'') rest\<rparr>)"

subsection \<open>\<open>crypto.createHash('md5')\<close>\<close>

text \<open>
  MD5 as in RFC 1321, on messages shorter than \<open>2^29\<close> bytes: the message, a byte
  \<open>0x80\<close>, zero bytes up to 56 modulo 64, and the length in bits as eight bytes, low
  byte first; sixteen little-endian words per block; sixty-four steps per block.
\<close>

type_synonym w32 = "32 word"

definition md5_K :: "w32 list" where
  "md5_K =
    [0xd76aa478, 0xe8c7b756, 0x242070db, 0xc1bdceee, 0xf57c0faf, 0x4787c62a, 0xa8304613, 0xfd469501,
     0x698098d8, 0x8b44f7af, 0xffff5bb1, 0x895cd7be, 0x6b901122, 0xfd987193, 0xa679438e, 0x49b40821,
     0xf61e2562, 0xc040b340, 0x265e5a51, 0xe9b6c7aa, 0xd62f105d, 0x02441453, 0xd8a1e681, 0xe7d3fbc8,
     0x21e1cde6, 0xc33707d6, 0xf4d50d87, 0x455a14ed, 0xa9e3e905, 0xfcefa3f8, 0x676f02d9, 0x8d2a4c8a,
     0xfffa3942, 0x8771f681, 0x6d9d6122, 0xfde5380c, 0xa4beea44, 0x4bdecfa9, 0xf6bb4b60, 0xbebfbc70,
     0x289b7ec6, 0xeaa127fa, 0xd4ef3085, 0x04881d05, 0xd9d4d039, 0xe6db99e5, 0x1fa27cf8, 0xc4ac5665,
     0xf4292244, 0x432aff97, 0xab9423a7, 0xfc93a039, 0x655b59c3, 0x8f0ccc92, 0xffeff47d, 0x85845dd1,
     0x6fa87e4f, 0xfe2ce6e0, 0xa3014314, 0x4e0811a1, 0xf7537e82, 0xbd3af235, 0x2ad7d2bb, 0xeb86d391]"

definition md5_S :: "nat list" where
  "md5_S =
    [7, 12, 17, 22, 7, 12, 17, 22, 7, 12, 17, 22, 7, 12, 17, 22,
     5, 9, 14, 20, 5, 9, 14, 20, 5, 9, 14, 20, 5, 9, 14, 20,
     4, 11, 16, 23, 4, 11, 16, 23, 4, 11, 16, 23, 4, 11, 16, 23,
     6, 10, 15, 21, 6, 10, 15, 21, 6, 10, 15, 21, 6, 10, 15, 21]"

definition rotl32 :: "w32 \<Rightarrow> nat \<Rightarrow> w32" where
  "rotl32 w n = push_bit n w OR drop_bit (32 - n) w"

definition md5_pad :: "w32 list \<Rightarrow> w32 list" where
  "md5_pad bs =
     (let n = length bs in
      bs @ [128] @ replicate ((119 - n mod 64) mod 64) 0 @
      map (\<lambda>i. drop_bit (8 * i) (of_nat (8 * n)) AND 255) [0..<4] @ [0, 0, 0, 0])"

fun words_of :: "w32 list \<Rightarrow> w32 list" where
  "words_of (a # b # c # d # r) = (a + 256 * (b + 256 * (c + 256 * d))) # words_of r"
| "words_of r = []"

primrec blocks :: "nat \<Rightarrow> 'a list \<Rightarrow> 'a list list" where
  "blocks 0 xs = []"
| "blocks (Suc k) xs = take 16 xs # blocks k (drop 16 xs)"

type_synonym md5_state = "w32 \<times> w32 \<times> w32 \<times> w32"

fun md5_step :: "w32 list \<Rightarrow> md5_state \<Rightarrow> nat \<Rightarrow> md5_state" where
  "md5_step M (A, B, C, D) i =
     (let F = (if i < 16 then (B AND C) OR (NOT B AND D)
               else if i < 32 then (D AND B) OR (NOT D AND C)
               else if i < 48 then B XOR C XOR D
               else C XOR (B OR NOT D));
          g = (if i < 16 then i
               else if i < 32 then (5 * i + 1) mod 16
               else if i < 48 then (3 * i + 5) mod 16
               else (7 * i) mod 16);
          F' = F + A + md5_K ! i + M ! g
      in (D, B + rotl32 F' (md5_S ! i), B, C))"

fun md5_block :: "md5_state \<Rightarrow> w32 list \<Rightarrow> md5_state" where
  "md5_block (a0, b0, c0, d0) M =
     (case foldl (md5_step M) (a0, b0, c0, d0) [0..<64] of
        (A, B, C, D) \<Rightarrow> (a0 + A, b0 + B, c0 + C, d0 + D))"

definition hexdigit :: "nat \<Rightarrow> char" where
  "hexdigit n = ''0123456789abcdef'' ! n"

definition hex_byte :: "w32 \<Rightarrow> string" where
  "hex_byte b = [hexdigit (unat (drop_bit 4 b AND 15)), hexdigit (unat (b AND 15))]"

definition hex_le :: "w32 \<Rightarrow> string" where
  "hex_le w = hex_byte (w AND 255) @ hex_byte (drop_bit 8 w AND 255)
            @ hex_byte (drop_bit 16 w AND 255) @ hex_byte (drop_bit 24 w AND 255)"

definition md5hex :: "string \<Rightarrow> string" where
  "md5hex s =
     (let ws = words_of (md5_pad (map of_char s)) in
      case foldl md5_block (0x67452301, 0xefcdab89, 0x98badcfe, 0x10325476)
             (blocks (length ws div 16) ws) of
        (a, b, c, d) \<Rightarrow> hex_le a @ hex_le b @ hex_le c @ hex_le d)"

lemma md5hex_empty: "md5hex [] = ''d41d8cd98f00b204e9800998ecf8427e''"
  by code_simp

lemma md5hex_abc: "md5hex ''abc'' = ''900150983cd24fb0d6963f7d28e17f72''"
  by code_simp

lemma length_md5hex: "length (md5hex s) = 32"
  by (simp add: md5hex_def hex_le_def hex_byte_def Let_def split: prod.splits)

section \<open>The asset downloader\<close>

subsection \<open>Configuration\<close>

definition DIR_ASSETS :: string where "DIR_ASSETS = ''assets''"
definition DIR_IMAGES :: string where "DIR_IMAGES = ''images''"
definition DIR_STYLESHEETS :: string where "DIR_STYLESHEETS = ''stylesheets''"
definition DIR_SCRIPTS :: string where "DIR_SCRIPTS = ''scripts''"
definition DIR_FONTS :: string where "DIR_FONTS = ''fonts''"
definition DIR_SCREENSHOTS :: string where "DIR_SCREENSHOTS = ''screenshots''"

definition DEFAULT_EXTENSIONS :: "string \<Rightarrow> string option" where
  "DEFAULT_EXTENSIONS =
     map_of [(''images'', ''.jpg''), (''stylesheets'', ''.css''), (''scripts'', ''.js''),
             (''fonts'', ''.woff2'')]"

subsection \<open>Data\<close>

text \<open>
  An asset reference as the page extractor produces it: the resolved URL and the literal
  attribute text (\<open>originalSrc\<close> for images and scripts, \<open>originalHref\<close> for style
  sheets and fonts; \<open>None\<close> where the key is absent). \<open>flattenAssets\<close> adds the
  category as \<open>type\<close>.
\<close>

record asset_ref =
  url :: string
  originalSrc :: "string option"
  originalHref :: "string option"

record asset = asset_ref +
  atype :: string

record assets =
  images :: "asset_ref list"
  stylesheets :: "asset_ref list"
  scripts :: "asset_ref list"
  fonts :: "asset_ref list"

text \<open>
  The outside world of one run. \<open>clock k\<close> is what the \<open>k\<close>-th call of \<open>Date.now()\<close>
  returns, \<open>fetch u\<close> what the network answers for \<open>u\<close>, \<open>write_error p\<close> the error of
  writing the file \<open>p\<close>, if any. The fields below \<open>write_error\<close> belong to the browser
  and the site's robots policy and are read by the scraper only: the error of creating the
  directories, what the robots policy of the site says about a URL, the error of launching
  the browser, of opening a context and a page in it, the answer to the navigation, the
  error of reading the loaded page, what the page holds, and the errors of the two
  captures.
\<close>

datatype fetch_result =
    Rejected string
  | Response int string "string + string"

datatype nav_result =
    NavRejected string
  | NavNull
  | NavResponse bool int string

record env =
  clock :: "nat \<Rightarrow> int"
  fetch :: "string \<Rightarrow> fetch_result"
  write_error :: "string \<Rightarrow> string option"
  mkdir_error :: "string option"
  robots_isAllowed :: "string \<Rightarrow> bool"
  launch_error :: "string option"
  context_error :: "string option"
  goto :: "string \<Rightarrow> nav_result"
  extract_error :: "string option"
  page_title :: string
  page_content :: string
  page_assets :: assets
  desktop_shot_error :: "string option"
  mobile_shot_error :: "string option"

text \<open>
  What a run has done so far: the files that exist, the number of clock readings taken,
  and the effects on the outside world in the order they happened.
\<close>

datatype event =
    MakeDirectories
  | LoadRobots string
  | LaunchBrowser
  | Navigate string
  | Fetch string
  | WriteFile string
  | Screenshot string
  | CloseBrowser

record world =
  files :: "string list"
  ticks :: nat
  trace :: "event list"

definition date_now :: "env \<Rightarrow> world \<Rightarrow> int \<times> world" where
  "date_now e w = (clock e (ticks w), w\<lparr>ticks := Suc (ticks w)\<rparr>)"

definition emit :: "event \<Rightarrow> world \<Rightarrow> world" where
  "emit ev w = w\<lparr>trace := trace w @ [ev]\<rparr>"

subsection \<open>\<open>FileManager\<close>\<close>

definition getAssetPath :: "string \<Rightarrow> string \<Rightarrow> string" where
  "getAssetPath outputDir subdir =
     (if subdir \<noteq> [] then path_join [outputDir, DIR_ASSETS, subdir]
      else path_join [outputDir, DIR_ASSETS])"

definition getScreenshotPath :: "string \<Rightarrow> string" where
  "getScreenshotPath outputDir = path_join [outputDir, DIR_SCREENSHOTS]"

definition fileExists :: "world \<Rightarrow> string \<Rightarrow> bool" where
  "fileExists w filePath \<longleftrightarrow> filePath \<in> set (files w)"

text \<open>\<open>saveAsset\<close>: write the bytes, answer the path relative to the output directory.\<close>

definition saveAsset :: "env \<Rightarrow> string \<Rightarrow> world \<Rightarrow> string \<Rightarrow> string \<Rightarrow> (string + string) \<times> world" where
  "saveAsset e outputDir w assetType filename =
     (let filePath = path_join [getAssetPath outputDir assetType, filename] in
      case write_error e filePath of
        Some msg \<Rightarrow> (Inl msg, w)
      | None \<Rightarrow> (Inr (path_join [DIR_ASSETS, assetType, filename]),
                 emit (WriteFile filePath) (w\<lparr>files := filePath # files w\<rparr>)))"

subsection \<open>\<open>AssetNamer.generateFilename\<close>\<close>

text \<open>The class \<open>[^a-zA-Z0-9.-]\<close> is replaced by an underscore.\<close>

definition sanitize_char :: "char \<Rightarrow> char" where
  "sanitize_char c =
     (if c \<in> set ''abcdefghijklmnopqrstuvwxyzABCDEFGHIJKLMNOPQRSTUVWXYZ0123456789.-'' then c
      else CHR ''_'')"

text \<open>\<open>now\<close> is the value \<open>Date.now()\<close> returns inside the function.\<close>

definition generateFilename :: "int \<Rightarrow> string \<Rightarrow> string \<Rightarrow> string" where
  "generateFilename now pathName assetType =
     (let ext = js_or (extname pathName)
                  (case DEFAULT_EXTENSIONS assetType of Some d \<Rightarrow> d | None \<Rightarrow> ''.bin'');
          basename0 = js_or (basename pathName ext) ''asset'';
          basename1 = map sanitize_char basename0;
          hash = take 8 (md5hex (pathName @ dec now))
      in basename1 @ ''-'' @ hash @ ext)"

subsection \<open>\<open>AssetManager\<close>\<close>

definition flattenAssets :: "assets \<Rightarrow> asset list" where
  "flattenAssets a =
     map (\<lambda>r. asset_ref.extend r (asset.fields DIR_IMAGES)) (images a) @
     map (\<lambda>r. asset_ref.extend r (asset.fields DIR_STYLESHEETS)) (stylesheets a) @
     map (\<lambda>r. asset_ref.extend r (asset.fields DIR_SCRIPTS)) (scripts a) @
     map (\<lambda>r. asset_ref.extend r (asset.fields DIR_FONTS)) (fonts a)"

text \<open>\<open>Array.prototype.findIndex\<close>; \<open>None\<close> is the \<open>-1\<close> of JavaScript.\<close>

fun findIndex :: "('a \<Rightarrow> bool) \<Rightarrow> 'a list \<Rightarrow> nat option" where
  "findIndex P [] = None"
| "findIndex P (x # xs) = (if P x then Some 0 else map_option Suc (findIndex P xs))"

definition removeDuplicates :: "asset list \<Rightarrow> asset list" where
  "removeDuplicates as =
     map snd (filter (\<lambda>(index, a). Some index = findIndex (\<lambda>b. url b = url a) as)
                (zip [0..<length as] as))"

text \<open>The value \<open>downloadSingleAsset\<close> returns; a thrown error is \<open>Inl\<close> of its message.\<close>

record download_result =
  r_success :: bool
  r_filename :: string
  r_relativePath :: string
  r_size :: nat

definition downloadSingleAsset ::
  "env \<Rightarrow> string \<Rightarrow> world \<Rightarrow> asset \<Rightarrow> (string + download_result) \<times> world" where
  "downloadSingleAsset e outputDir w a =
     (case parse_url (url a) of
        None \<Rightarrow> (Inl ''Invalid URL'', w)
      | Some assetUrl \<Rightarrow>
          (case date_now e w of (now, w1) \<Rightarrow>
             let filename = generateFilename now (pathname assetUrl) (atype a);
                 localPath = path_join [getAssetPath outputDir (atype a), filename]
             in if fileExists w1 localPath
                then (Inr \<lparr>r_success = True, r_filename = filename,
                           r_relativePath = path_join [DIR_ASSETS, atype a, filename],
                           r_size = 0\<rparr>, w1)
                else
                  (let w2 = emit (Fetch (url a)) w1 in
                   case fetch e (url a) of
                     Rejected msg \<Rightarrow> (Inl msg, w2)
                   | Response status statusText body \<Rightarrow>
                       if \<not> (200 \<le> status \<and> status \<le> 299)
                       then (Inl (''HTTP '' @ dec status @ '': '' @ statusText), w2)
                       else (case body of
                               Inl msg \<Rightarrow> (Inl msg, w2)
                             | Inr buffer \<Rightarrow>
                                 (case saveAsset e outputDir w2 (atype a) filename of
                                    (Inl msg, w3) \<Rightarrow> (Inl msg, w3)
                                  | (Inr relativePath, w3) \<Rightarrow>
                                      (Inr \<lparr>r_success = True, r_filename = filename,
                                            r_relativePath = relativePath,
                                            r_size = length buffer\<rparr>, w3))))))"

record download_stats =
  total :: nat
  downloaded :: nat
  failed :: nat

text \<open>\<open>if (asset.originalSrc) mapping[asset.originalSrc] = ...\<close>: absent and empty are falsy.\<close>

definition set_if_truthy :: "js_object \<Rightarrow> string option \<Rightarrow> string \<Rightarrow> js_object" where
  "set_if_truthy m k v = (case k of None \<Rightarrow> m | Some s \<Rightarrow> if s = [] then m else obj_set m s v)"

definition register_asset :: "js_object \<Rightarrow> asset \<Rightarrow> string \<Rightarrow> js_object" where
  "register_asset mapping a relativePath =
     set_if_truthy
       (set_if_truthy (obj_set mapping (url a) relativePath) (originalSrc a) relativePath)
       (originalHref a) relativePath"

text \<open>The body of the \<open>for\<close> loop of \<open>downloadAndMapAssets\<close>, and the loop.\<close>

fun download_loop ::
  "env \<Rightarrow> string \<Rightarrow> asset list \<Rightarrow> js_object \<times> download_stats \<times> world
     \<Rightarrow> js_object \<times> download_stats \<times> world" where
  "download_loop e outputDir [] acc = acc"
| "download_loop e outputDir (a # as) (mapping, stats, w) =
     (case downloadSingleAsset e outputDir w a of
        (Inr result, w') \<Rightarrow>
          if r_success result
          then download_loop e outputDir as
                 (register_asset mapping a (r_relativePath result),
                  stats\<lparr>downloaded := Suc (downloaded stats)\<rparr>, w')
          else download_loop e outputDir as (mapping, stats\<lparr>failed := Suc (failed stats)\<rparr>, w')
      | (Inl msg, w') \<Rightarrow>
          download_loop e outputDir as (mapping, stats\<lparr>failed := Suc (failed stats)\<rparr>, w'))"

definition downloadAndMapAssets ::
  "env \<Rightarrow> string \<Rightarrow> world \<Rightarrow> assets \<Rightarrow> js_object \<times> download_stats \<times> world" where
  "downloadAndMapAssets e outputDir w extracted =
     (let allAssets = flattenAssets extracted;
          uniqueAssets = removeDuplicates allAssets;
          stats = \<lparr>total = length uniqueAssets, downloaded = 0, failed = 0\<rparr>
      in download_loop e outputDir uniqueAssets ([], stats, w))"

section \<open>Screenshots\<close>

record screenshots =
  desktop :: "string option"
  mobile :: "string option"

text \<open>
  \<open>ScreenshotManager.captureScreenshots\<close>. One \<open>try\<close> block holds both captures:
  the first error ends the block, and the function returns the slots filled so far.
  \<open>desktop_shot_error\<close> and \<open>mobile_shot_error\<close> say whether setting the viewport,
  waiting and taking the picture throws for that viewport.
\<close>

definition captureScreenshots :: "env \<Rightarrow> string \<Rightarrow> string \<Rightarrow> world \<Rightarrow> screenshots \<times> world" where
  "captureScreenshots e outputDir hostName w =
     (case date_now e w of (timestamp, w1) \<Rightarrow>
        (case desktop_shot_error e of
           Some msg \<Rightarrow> (\<lparr>desktop = None, mobile = None\<rparr>, w1)
         | None \<Rightarrow>
             let desktopFilename = hostName @ ''-desktop-'' @ dec timestamp @ ''.png'';
                 desktopPath = path_join [getScreenshotPath outputDir, desktopFilename];
                 w2 = emit (Screenshot desktopPath) (w1\<lparr>files := desktopPath # files w1\<rparr>)
             in (case mobile_shot_error e of
                   Some msg \<Rightarrow> (\<lparr>desktop = Some desktopPath, mobile = None\<rparr>, w2)
                 | None \<Rightarrow>
                     let mobileFilename = hostName @ ''-mobile-'' @ dec timestamp @ ''.png'';
                         mobilePath = path_join [getScreenshotPath outputDir, mobileFilename];
                         w3 = emit (Screenshot mobilePath) (w2\<lparr>files := mobilePath # files w2\<rparr>)
                     in (\<lparr>desktop = Some desktopPath, mobile = Some mobilePath\<rparr>, w3))))"

section \<open>The scraper\<close>

record params =
  p_url :: string
  p_outputDir :: string
  p_userAgent :: string
  p_respectRobots :: bool
  p_downloadAssets :: bool
  p_takeScreenshots :: bool

text \<open>
  \<open>result.statistics\<close>. \<open>processAssets\<close> spreads the counters of the downloader, whose
  keys are \<open>total\<close>, \<open>downloaded\<close> and \<open>failed\<close>, over the object; the last three
  fields are those keys, \<open>None\<close> while the object does not have them.
\<close>

record statistics =
  totalAssets :: nat
  downloadedAssets :: nat
  failedAssets :: nat
  processingTime :: int
  key_total :: "nat option"
  key_downloaded :: "nat option"
  key_failed :: "nat option"

record result =
  success :: bool
  accessible :: bool
  scrapingAllowed :: bool
  html :: "string option"
  title :: "string option"
  found_assets :: assets
  shots :: screenshots
  assetMapping :: js_object
  stats :: statistics
  message :: string

definition initial_result :: result where
  "initial_result =
     \<lparr>success = False, accessible = False, scrapingAllowed = False,
      html = None, title = None,
      found_assets = \<lparr>images = [], stylesheets = [], scripts = [], fonts = []\<rparr>,
      shots = \<lparr>desktop = None, mobile = None\<rparr>,
      assetMapping = [],
      stats = \<lparr>totalAssets = 0, downloadedAssets = 0, failedAssets = 0, processingTime = 0,
               key_total = None, key_downloaded = None, key_failed = None\<rparr>,
      message = []\<rparr>"

text \<open>The scraper object while it runs: its result, the world, and whether a browser is open.\<close>

record scraper =
  res :: result
  wld :: world
  browser_open :: bool

text \<open>
  A step of \<open>scrape\<close> either throws (\<open>Some\<close> of the error message) or completes.
  The steps run in order and the first error ends the \<open>try\<close> block.
\<close>

type_synonym step = "scraper \<Rightarrow> string option \<times> scraper"

fun run_steps :: "step list \<Rightarrow> step" where
  "run_steps [] s = (None, s)"
| "run_steps (f # fs) s =
     (case f s of (Some err, s') \<Rightarrow> (Some err, s') | (None, s') \<Rightarrow> run_steps fs s')"

definition validateUrl :: "params \<Rightarrow> step" where
  "validateUrl ps s =
     (case parse_url (p_url ps) of
        None \<Rightarrow> (Some ''Invalid URL'', s)
      | Some urlObj \<Rightarrow>
          if protocol urlObj \<notin> set [''http:'', ''https:'']
          then (Some ''Only HTTP and HTTPS URLs are supported'', s)
          else (None, s))"

definition createDirectoryStructure :: "env \<Rightarrow> step" where
  "createDirectoryStructure e s =
     (let s1 = s\<lparr>wld := emit MakeDirectories (wld s)\<rparr> in
      case mkdir_error e of Some msg \<Rightarrow> (Some msg, s1) | None \<Rightarrow> (None, s1))"

text \<open>
  The robots checker is the class \<open>RobotsFile\<close> of the crawlee library. The class has
  \<open>load\<close> as a static method only: an object made by \<open>new RobotsFile(...)\<close> has no
  property \<open>load\<close>, so the call \<open>robotsFile.load(robotsUrl)\<close> throws a \<open>TypeError\<close>
  before any request is made.
\<close>

definition RobotsFile_instance_load :: "string \<Rightarrow> string + unit" where
  "RobotsFile_instance_load robotsUrl = Inl ''robotsFile.load is not a function''"

text \<open>
  \<open>checkRobotsTxt\<close>. Its \<open>catch\<close> block throws the error again when the message
  contains \<open>blocked\<close> and logs a warning otherwise.
\<close>

definition robots_catch :: "string \<Rightarrow> step" where
  "robots_catch msg s = (if str_includes msg ''blocked'' then (Some msg, s) else (None, s))"

definition checkRobotsTxt :: "env \<Rightarrow> params \<Rightarrow> step" where
  "checkRobotsTxt e ps s =
     (if \<not> p_respectRobots ps then (None, s)
      else
        (case parse_url (p_url ps) of
           None \<Rightarrow> robots_catch ''Invalid URL'' s
         | Some urlObj \<Rightarrow>
             let robotsUrl = protocol urlObj @ ''//'' @ host urlObj @ ''/robots.txt'' in
             (case RobotsFile_instance_load robotsUrl of
                Inl msg \<Rightarrow> robots_catch msg s
              | Inr loaded \<Rightarrow>
                  let s1 = s\<lparr>wld := emit (LoadRobots robotsUrl) (wld s)\<rparr> in
                  if \<not> robots_isAllowed e (p_url ps)
                  then robots_catch ''Access blocked by robots.txt'' s1
                  else (None, s1))))"

definition launchBrowser :: "env \<Rightarrow> step" where
  "launchBrowser e s =
     (case launch_error e of
        Some msg \<Rightarrow> (Some msg, s)
      | None \<Rightarrow>
          let s1 = s\<lparr>wld := emit LaunchBrowser (wld s), browser_open := True\<rparr> in
          (case context_error e of Some msg \<Rightarrow> (Some msg, s1) | None \<Rightarrow> (None, s1)))"

definition scrapePage :: "env \<Rightarrow> params \<Rightarrow> step" where
  "scrapePage e ps s =
     (let s1 = s\<lparr>wld := emit (Navigate (p_url ps)) (wld s)\<rparr> in
      case goto e (p_url ps) of
        NavRejected msg \<Rightarrow> (Some msg, s1)
      | NavNull \<Rightarrow> (Some ''HTTP unknown: Navigation failed'', s1)
      | NavResponse ok status statusText \<Rightarrow>
          if \<not> ok
          then (Some (''HTTP '' @ (if status = 0 then ''unknown'' else dec status) @ '': ''
                       @ js_or statusText ''Navigation failed''), s1)
          else (case extract_error e of
                  Some msg \<Rightarrow> (Some msg, s1)
                | None \<Rightarrow>
                    (None, s1\<lparr>res := (res s1)\<lparr>title := Some (page_title e),
                                                  html := Some (page_content e),
                                                  found_assets := page_assets e\<rparr>\<rparr>)))"

definition processAssets :: "env \<Rightarrow> params \<Rightarrow> step" where
  "processAssets e ps s =
     (case parse_url (p_url ps) of
        None \<Rightarrow> (Some ''Invalid URL'', s)
      | Some urlObj \<Rightarrow>
          (case downloadAndMapAssets e (p_outputDir ps) (wld s) (found_assets (res s)) of
             (mapping, dl, w') \<Rightarrow>
               (None, s\<lparr>wld := w',
                        res := (res s)\<lparr>assetMapping := mapping,
                                        stats := (stats (res s))\<lparr>key_total := Some (total dl),
                                                                  key_downloaded := Some (downloaded dl),
                                                                  key_failed := Some (failed dl)\<rparr>\<rparr>\<rparr>)))"

definition scraper_captureScreenshots :: "env \<Rightarrow> params \<Rightarrow> step" where
  "scraper_captureScreenshots e ps s =
     (case parse_url (p_url ps) of
        None \<Rightarrow> (Some ''Invalid URL'', s)
      | Some urlObj \<Rightarrow>
          (case captureScreenshots e (p_outputDir ps) (hostname urlObj) (wld s) of
             (sh, w') \<Rightarrow> (None, s\<lparr>wld := w', res := (res s)\<lparr>shots := sh\<rparr>\<rparr>)))"

definition saveFile :: "env \<Rightarrow> params \<Rightarrow> string \<Rightarrow> step" where
  "saveFile e ps filename s =
     (let filePath = path_join [p_outputDir ps, filename] in
      case write_error e filePath of
        Some msg \<Rightarrow> (Some msg, s)
      | None \<Rightarrow> (None, s\<lparr>wld := emit (WriteFile filePath)
                                     ((wld s)\<lparr>files := filePath # files (wld s)\<rparr>)\<rparr>))"

definition saveResults :: "env \<Rightarrow> params \<Rightarrow> step" where
  "saveResults e ps s =
     (case html (res s) of
        None \<Rightarrow> (Some ''Cannot read properties of null'', s)
      | Some h \<Rightarrow>
          let modifiedHtml = AssetMapper_replaceAssetUrls h (assetMapping (res s)) in
          run_steps
            [saveFile e ps ''index.html'',
             saveFile e ps ''metadata.json'',
             (\<lambda>s'. (None, s'\<lparr>res := (res s')\<lparr>html := Some modifiedHtml\<rparr>\<rparr>))] s)"

definition cleanup :: "scraper \<Rightarrow> scraper" where
  "cleanup s = (if browser_open s then s\<lparr>wld := emit CloseBrowser (wld s)\<rparr> else s)"

definition skip :: step where
  "skip s = (None, s)"

text \<open>
  \<open>WebScraper.scrape\<close>. \<open>scrape_try\<close> is the \<open>try\<close> block up to \<open>saveResults\<close>;
  \<open>scrape_finish\<close> is the end of the \<open>try\<close> block (the assignments after
  \<open>saveResults\<close>) or the \<open>catch\<close> block, followed by \<open>finally\<close>.
\<close>

definition scrape_try :: "env \<Rightarrow> params \<Rightarrow> step" where
  "scrape_try e ps =
     run_steps
       [validateUrl ps,
        createDirectoryStructure e,
        checkRobotsTxt e ps,
        launchBrowser e,
        scrapePage e ps,
        (if p_downloadAssets ps then processAssets e ps else skip),
        (if p_takeScreenshots ps then scraper_captureScreenshots e ps else skip),
        saveResults e ps]"

definition scrape_finish :: "env \<Rightarrow> int \<Rightarrow> string option \<times> scraper \<Rightarrow> result \<times> world" where
  "scrape_finish e startTime outcome =
     (case outcome of (thrown, s) \<Rightarrow>
        (case date_now e (wld s) of (endTime, w2) \<Rightarrow>
           let elapsed = endTime - startTime;
               r = (case thrown of
                      None \<Rightarrow>
                        (res s)\<lparr>success := True, accessible := True, scrapingAllowed := True,
                                stats := (stats (res s))\<lparr>processingTime := elapsed\<rparr>,
                                message := ''Successfully scraped page and processed ''
                                  @ dec (int (downloadedAssets (stats (res s)))) @ ''/''
                                  @ dec (int (totalAssets (stats (res s)))) @ '' assets in ''
                                  @ dec elapsed @ ''ms''\<rparr>
                    | Some msg \<Rightarrow>
                        (res s)\<lparr>message := ''Scraping error: '' @ msg,
                                stats := (stats (res s))\<lparr>processingTime := elapsed\<rparr>\<rparr>)
           in (r, wld (cleanup (s\<lparr>wld := w2\<rparr>)))))"

definition scrape :: "env \<Rightarrow> params \<Rightarrow> world \<Rightarrow> result \<times> world" where
  "scrape e ps w0 =
     (case date_now e w0 of (startTime, w1) \<Rightarrow>
        scrape_finish e startTime
          (scrape_try e ps \<lparr>res = initial_result, wld = w1, browser_open = False\<rparr>))"

section \<open>Sample runs\<close>

text \<open>
  A page at \<open>https://x.test/\<close> with three images, a network that answers every request
  with five bytes, a clock that advances one second per reading, and an empty output
  directory.
\<close>

definition img :: "string \<Rightarrow> string \<Rightarrow> asset_ref" where
  "img u literal = \<lparr>url = u, originalSrc = Some literal, originalHref = None\<rparr>"

definition three_images :: assets where
  "three_images =
     \<lparr>images = [img ''https://x.test/a.png'' ''/a.png'',
                img ''https://x.test/b.png'' ''/b.png'',
                img ''https://x.test/c.png'' ''/c.png''],
      stylesheets = [], scripts = [], fonts = []\<rparr>"

definition env_ok :: env where
  "env_ok =
     \<lparr>clock = (\<lambda>k. 1700000000000 + 1000 * int k),
      fetch = (\<lambda>u. Response 200 ''OK'' (Inr ''bytes'')),
      write_error = (\<lambda>p. None),
      mkdir_error = None,
      robots_isAllowed = (\<lambda>u. True),
      launch_error = None,
      context_error = None,
      goto = (\<lambda>u. NavResponse True 200 ''OK''),
      extract_error = None,
      page_title = ''T'',
      page_content = ''<img src='' @ [dquote] @ ''/a.png'' @ [dquote] @ ''>'',
      page_assets = three_images,
      desktop_shot_error = None,
      mobile_shot_error = None\<rparr>"

definition world0 :: world where
  "world0 = \<lparr>files = [], ticks = 0, trace = []\<rparr>"

definition params_ok :: params where
  "params_ok =
     \<lparr>p_url = ''https://x.test/'', p_outputDir = ''out'', p_userAgent = ''UA'',
      p_respectRobots = True, p_downloadAssets = True, p_takeScreenshots = True\<rparr>"

section \<open>Properties of the downloader\<close>

subsection \<open>Facts about objects\<close>

lemma fst_update_entry:
  "fst \<circ> (\<lambda>(k', v'). if k' = k then (k', v) else (k', v')) = fst"
  by (auto simp: fun_eq_iff)

lemma map_of_update_existing:
  "map_of (map (\<lambda>(k', v'). if k' = k then (k', v) else (k', v')) m) x =
     (if x = k \<and> k \<in> set (map fst m) then Some v else map_of m x)"
proof (induction m)
  case Nil
  then show ?case by simp
next
  case (Cons p m)
  then show ?case by (cases p) (force split: if_splits)
qed

lemma obj_get_obj_set:
  "obj_get (obj_set m k v) x =
     (if x = k \<and> k \<noteq> ''__proto__'' then Some v else obj_get m x)"
proof (cases "k \<in> set (map fst m)")
  case True
  then show ?thesis
    by (simp add: obj_get_def obj_set_def map_of_update_existing)
next
  case False
  then have "map_of m k = None"
    by (simp add: map_of_eq_None_iff)
  with False show ?thesis
    by (simp add: obj_get_def obj_set_def map_add_def split: option.splits)
qed

lemma obj_keys_obj_set:
  "set (obj_keys (obj_set m k v)) =
     (if k = ''__proto__'' then set (obj_keys m) else insert k (set (obj_keys m)))"
  by (auto simp: obj_keys_def obj_set_def image_comp fst_update_entry)


subsection \<open>\<open>removeDuplicates\<close> keeps the first reference of every URL\<close>

text \<open>
  The same list by recursion: walk the references and keep one whenever its URL has not
  been seen.
\<close>

fun first_occurrences :: "string set \<Rightarrow> asset list \<Rightarrow> asset list" where
  "first_occurrences seen [] = []"
| "first_occurrences seen (a # as) =
     (if url a \<in> seen then first_occurrences seen as
      else a # first_occurrences (insert (url a) seen) as)"

lemma findIndex_append_here:
  "findIndex P (pre @ x # xs) = Some (length pre) \<longleftrightarrow> P x \<and> (\<forall>y\<in>set pre. \<not> P y)"
  by (induction pre) auto

lemma removeDuplicates_aux:
  "map snd (filter (\<lambda>(index, a). Some index = findIndex (\<lambda>b. url b = url a) (pre @ as))
              (zip [length pre..<length pre + length as] as))
   = first_occurrences (url ` set pre) as"
proof (induction as arbitrary: pre)
  case Nil
  then show ?case by simp
next
  case (Cons a as)
  have z: "zip [length pre..<length pre + length (a # as)] (a # as)
             = (length pre, a) # zip [length (pre @ [a])..<length (pre @ [a]) + length as] as"
  proof -
    have "[length pre..<length pre + Suc (length as)]
            = length pre # [Suc (length pre)..<Suc (length pre) + length as]"
      by (metis add_Suc_right add_Suc less_add_Suc1 upt_conv_Cons)
    then show ?thesis by simp
  qed
  have h: "Some (length pre) = findIndex (\<lambda>b. url b = url a) (pre @ a # as)
             \<longleftrightarrow> url a \<notin> url ` set pre"
    using findIndex_append_here [of "\<lambda>b. url b = url a" pre a as]
    by (auto simp: eq_commute [of "Some (length pre)"] image_iff)
  have ih: "map snd (filter (\<lambda>(index, x). Some index = findIndex (\<lambda>b. url b = url x) (pre @ a # as))
              (zip [length (pre @ [a])..<length (pre @ [a]) + length as] as))
            = first_occurrences (url ` set (pre @ [a])) as"
    using Cons.IH [of "pre @ [a]"] by simp
  show ?case
    unfolding z using h ih by (simp add: insert_absorb)
qed

lemma removeDuplicates_eq: "removeDuplicates as = first_occurrences {} as"
  using removeDuplicates_aux [of "[]" as] by (simp add: removeDuplicates_def)

lemma first_occurrences_urls:
  "distinct (map url (first_occurrences seen as)) \<and>
   set (map url (first_occurrences seen as)) = url ` set as - seen \<and>
   set (first_occurrences seen as) \<subseteq> set as"
  by (induction seen as rule: first_occurrences.induct) auto

lemma distinct_removeDuplicates: "distinct (map url (removeDuplicates as))"
  by (simp add: removeDuplicates_eq first_occurrences_urls)

lemma set_removeDuplicates: "url ` set (removeDuplicates as) = url ` set as"
  using first_occurrences_urls [of "{}" as] by (simp add: removeDuplicates_eq)


subsection \<open>The download loop\<close>

text \<open>
  \<open>asset_keys\<close> are the keys under which the loop registers a downloaded asset;
  \<open>run_log\<close> lists what \<open>downloadSingleAsset\<close> answers for each asset of the loop, in
  the world the loop has reached when it gets to that asset.
\<close>

definition asset_keys :: "asset \<Rightarrow> string list" where
  "asset_keys a =
     url a #
     (case originalSrc a of None \<Rightarrow> [] | Some s \<Rightarrow> if s = [] then [] else [s]) @
     (case originalHref a of None \<Rightarrow> [] | Some s \<Rightarrow> if s = [] then [] else [s])"

fun run_log ::
  "env \<Rightarrow> string \<Rightarrow> world \<Rightarrow> asset list \<Rightarrow> (asset \<times> (string + download_result)) list" where
  "run_log e outputDir w [] = []"
| "run_log e outputDir w (a # as) =
     (case downloadSingleAsset e outputDir w a of
        (ans, w') \<Rightarrow> (a, ans) # run_log e outputDir w' as)"

lemma obj_get_register_asset:
  "obj_get (register_asset m a p) k =
     (if k \<in> set (asset_keys a) \<and> k \<noteq> ''__proto__'' then Some p else obj_get m k)"
  by (auto simp: register_asset_def set_if_truthy_def asset_keys_def obj_get_obj_set
           split: option.splits)

lemma downloadSingleAsset_success:
  "downloadSingleAsset e d w a = (Inr r, w') \<Longrightarrow> r_success r"
  by (auto simp: downloadSingleAsset_def saveAsset_def Let_def date_now_def
           split: option.splits prod.splits if_splits fetch_result.splits sum.splits)

lemma download_loop_preserves:
  "\<forall>b\<in>set as. k \<notin> set (asset_keys b) \<Longrightarrow>
     obj_get (fst (download_loop e d as (m, s, w))) k = obj_get m k"
  by (induction as arbitrary: m s w)
     (auto simp: obj_get_register_asset split: prod.splits sum.splits)

lemma download_loop_key_origin:
  "obj_get (fst (download_loop e d as (m, s, w))) k = Some p \<Longrightarrow>
     obj_get m k = Some p \<or> (\<exists>b\<in>set as. k \<in> set (asset_keys b))"
proof (induction as arbitrary: m s w)
  case Nil
  then show ?case by simp
next
  case (Cons a as)
  obtain ans w' where d: "downloadSingleAsset e d w a = (ans, w')"
    by (cases "downloadSingleAsset e d w a")
  show ?case
  proof (cases ans)
    case (Inl msg)
    with Cons d show ?thesis by auto
  next
    case (Inr r)
    show ?thesis
    proof (cases "r_success r")
      case True
      with Cons.prems d Inr
      have "obj_get (fst (download_loop e d as
               (register_asset m a (r_relativePath r), s\<lparr>downloaded := Suc (downloaded s)\<rparr>, w'))) k = Some p"
        by simp
      from Cons.IH [OF this] show ?thesis
        by (auto simp: obj_get_register_asset split: if_splits)
    next
      case False
      with Cons d Inr show ?thesis by auto
    qed
  qed
qed

lemma download_loop_stats:
  "download_loop e d as (m, s, w) = (m', s', w') \<Longrightarrow>
     total s' = total s \<and> downloaded s' + failed s' = downloaded s + failed s + length as"
proof (induction as arbitrary: m s w)
  case Nil
  then show ?case by simp
next
  case (Cons a as)
  then show ?case
    by (fastforce split: prod.splits sum.splits if_splits)
qed

lemma run_log_fst: "(a, ans) \<in> set (run_log e d w as) \<Longrightarrow> a \<in> set as"
  by (induction as arbitrary: w) (auto split: prod.splits)

lemma download_loop_maps_keys:
  assumes "distinct (map url as)"
      and "(a, Inr r) \<in> set (run_log e d w as)"
      and "\<forall>b\<in>set as. b \<noteq> a \<longrightarrow> set (asset_keys b) \<inter> set (asset_keys a) = {}"
      and "k \<in> set (asset_keys a)" and "k \<noteq> ''__proto__''"
  shows "obj_get (fst (download_loop e d as (m, s, w))) k = Some (r_relativePath r)"
  using assms
proof (induction as arbitrary: m s w)
  case Nil
  then show ?case by simp
next
  case (Cons a' as)
  obtain ans w' where d: "downloadSingleAsset e d w a' = (ans, w')"
    by (cases "downloadSingleAsset e d w a'")
  from Cons.prems(2) d
  consider (here) "a = a'" "ans = Inr r" | (later) "(a, Inr r) \<in> set (run_log e d w' as)"
    by auto
  then show ?case
  proof cases
    case here
    have ok: "r_success r"
      using d here downloadSingleAsset_success by blast
    have "\<forall>b\<in>set as. k \<notin> set (asset_keys b)"
    proof
      fix b assume b: "b \<in> set as"
      with Cons.prems(1) here have "b \<noteq> a" by auto
      with Cons.prems(3) b have "set (asset_keys b) \<inter> set (asset_keys a) = {}" by simp
      with Cons.prems(4) show "k \<notin> set (asset_keys b)" by auto
    qed
    from download_loop_preserves [OF this] show ?thesis
      using d here ok Cons.prems(4,5) by (simp add: obj_get_register_asset)
  next
    case later
    have ih: "obj_get (fst (download_loop e d as (m1, s1, w'))) k = Some (r_relativePath r)" for m1 s1
      using Cons.IH [of w' m1 s1] later Cons.prems by simp
    show ?thesis
      using d ih by (cases ans) (auto)
  qed
qed

subsection \<open>Which literal strings become keys of the mapping\<close>

text \<open>
  A page at \<open>https://x.test/\<close> that shows one image twice, once as \<open>/a.png\<close> and once
  as \<open>a.png\<close>; both resolve to \<open>https://x.test/a.png\<close>.
\<close>

definition dup_assets :: assets where
  "dup_assets =
     \<lparr>images = [img ''https://x.test/a.png'' ''/a.png'', img ''https://x.test/a.png'' ''a.png''],
      stylesheets = [], scripts = [], fonts = []\<rparr>"

definition dup_first :: asset where
  "dup_first = \<lparr>url = ''https://x.test/a.png'', originalSrc = Some ''/a.png'',
                 originalHref = None, atype = ''images''\<rparr>"

definition dup_first_result :: download_result where
  "dup_first_result = \<lparr>r_success = True, r_filename = ''a-5e4d2f7d.png'',
                        r_relativePath = ''assets/images/a-5e4d2f7d.png'', r_size = 5\<rparr>"

text \<open>
  C1, as stated, fails. The image downloads, and the mapping holds its URL and the
  literal of its first reference; the literal \<open>a.png\<close> of the second reference is not a
  key, because \<open>removeDuplicates\<close> drops that reference before the loop runs.
\<close>

theorem duplicate_literal_not_mapped:
  "downloadAndMapAssets env_ok ''out'' world0 dup_assets =
     ([(''https://x.test/a.png'', ''assets/images/a-5e4d2f7d.png''),
       (''/a.png'', ''assets/images/a-5e4d2f7d.png'')],
      \<lparr>total = 1, downloaded = 1, failed = 0\<rparr>,
      \<lparr>files = [''out/assets/images/a-5e4d2f7d.png''], ticks = 1,
       trace = [Fetch ''https://x.test/a.png'', WriteFile ''out/assets/images/a-5e4d2f7d.png'']\<rparr>)
   \<and> obj_get (fst (downloadAndMapAssets env_ok ''out'' world0 dup_assets)) ''a.png'' = None"
  by code_simp

text \<open>
  C1, amended. Take a reference that \<open>removeDuplicates\<close> keeps (the first one of its
  URL) and that downloads, and let no other kept reference use one of its strings. Then
  its URL and its own literal are keys of the mapping and map to the same relative path.
  Every key of the mapping is the URL or the own literal of a kept reference: the
  literals of dropped duplicates are not added. (The string \<open>__proto__\<close> never becomes
  a key.)
\<close>

theorem first_occurrence_keys_mapped:
  assumes "(a, Inr r) \<in> set (run_log e outputDir w (removeDuplicates (flattenAssets extracted)))"
      and "\<forall>b\<in>set (removeDuplicates (flattenAssets extracted)).
             b \<noteq> a \<longrightarrow> set (asset_keys b) \<inter> set (asset_keys a) = {}"
  shows "(\<forall>k\<in>set (asset_keys a). k \<noteq> ''__proto__'' \<longrightarrow>
            obj_get (fst (downloadAndMapAssets e outputDir w extracted)) k = Some (r_relativePath r))
       \<and> (\<forall>k p. obj_get (fst (downloadAndMapAssets e outputDir w extracted)) k = Some p \<longrightarrow>
            (\<exists>b\<in>set (removeDuplicates (flattenAssets extracted)). k \<in> set (asset_keys b)))"
proof (intro conjI ballI impI allI)
  fix k assume "k \<in> set (asset_keys a)" "k \<noteq> ''__proto__''"
  with download_loop_maps_keys [OF distinct_removeDuplicates assms(1) assms(2)]
  show "obj_get (fst (downloadAndMapAssets e outputDir w extracted)) k = Some (r_relativePath r)"
    by (simp add: downloadAndMapAssets_def Let_def)
next
  fix k p
  assume "obj_get (fst (downloadAndMapAssets e outputDir w extracted)) k = Some p"
  then have "obj_get [] k = Some p \<or>
             (\<exists>b\<in>set (removeDuplicates (flattenAssets extracted)). k \<in> set (asset_keys b))"
    unfolding downloadAndMapAssets_def Let_def by (rule download_loop_key_origin)
  then show "\<exists>b\<in>set (removeDuplicates (flattenAssets extracted)). k \<in> set (asset_keys b)"
    by (simp add: obj_get_def)
qed

theorem first_occurrence_keys_mapped_witness:
  "obj_get (fst (downloadAndMapAssets env_ok ''out'' world0 dup_assets)) ''https://x.test/a.png''
     = Some ''assets/images/a-5e4d2f7d.png''
   \<and> obj_get (fst (downloadAndMapAssets env_ok ''out'' world0 dup_assets)) ''/a.png''
     = Some ''assets/images/a-5e4d2f7d.png''"
proof -
  have p1: "(dup_first, Inr dup_first_result)
              \<in> set (run_log env_ok ''out'' world0 (removeDuplicates (flattenAssets dup_assets)))"
    by code_simp
  have p2: "\<forall>b\<in>set (removeDuplicates (flattenAssets dup_assets)).
              b \<noteq> dup_first \<longrightarrow> set (asset_keys b) \<inter> set (asset_keys dup_first) = {}"
    by code_simp
  have k: "asset_keys dup_first = [''https://x.test/a.png'', ''/a.png'']"
    by code_simp
  have r: "r_relativePath dup_first_result = ''assets/images/a-5e4d2f7d.png''"
    by (simp add: dup_first_result_def)
  from first_occurrence_keys_mapped [OF p1 p2] show ?thesis
    by (simp add: k r)
qed


subsection \<open>File names\<close>

definition chosen_ext :: "string \<Rightarrow> string \<Rightarrow> string" where
  "chosen_ext pathName assetType =
     js_or (extname pathName)
       (case DEFAULT_EXTENSIONS assetType of Some d \<Rightarrow> d | None \<Rightarrow> ''.bin'')"

lemma extname_form:
  "extname p = [] \<or> (\<exists>x. extname p = CHR ''.'' # x \<and> CHR ''.'' \<notin> set x)"
proof -
  have "CHR ''.'' \<notin> set (takeWhile (\<lambda>x. x \<noteq> CHR ''.'') xs)" for xs :: string
    using set_takeWhileD by fastforce
  then show ?thesis
    by (simp add: extname_def Let_def)
qed

lemma default_ext_form:
  "\<exists>x. (case DEFAULT_EXTENSIONS ty of Some d \<Rightarrow> d | None \<Rightarrow> ''.bin'') = CHR ''.'' # x
        \<and> CHR ''.'' \<notin> set x"
  by (auto simp: DEFAULT_EXTENSIONS_def split: option.splits if_splits)

lemma chosen_ext_form: "\<exists>x. chosen_ext p ty = CHR ''.'' # x \<and> CHR ''.'' \<notin> set x"
  using extname_form [of p] default_ext_form [of ty]
  by (auto simp: chosen_ext_def js_or_def)

lemma split_last_dot:
  assumes "xs @ CHR ''.'' # x = ys @ CHR ''.'' # y"
      and "CHR ''.'' \<notin> set x" and "CHR ''.'' \<notin> set y"
  shows "xs = ys \<and> x = y"
  using assms
  by (auto simp: append_eq_append_conv2 Cons_eq_append_conv append_eq_Cons_conv)

lemma generateFilename_parts:
  "\<exists>b x. generateFilename now p ty = (b @ ''-'' @ take 8 (md5hex (p @ dec now))) @ CHR ''.'' # x
         \<and> CHR ''.'' \<notin> set x"
proof -
  obtain x where x: "chosen_ext p ty = CHR ''.'' # x" "CHR ''.'' \<notin> set x"
    using chosen_ext_form by blast
  then show ?thesis
    by (auto simp: generateFilename_def Let_def chosen_ext_def)
qed

text \<open>
  Two images of one site, \<open>/img/logo.png\<close> and \<open>/static/logo.png\<close>, named
  53896 milliseconds apart.
\<close>

definition colliding_assets :: assets where
  "colliding_assets =
     \<lparr>images = [img ''https://cdn.test/img/logo.png'' ''/img/logo.png'',
                img ''https://cdn.test/static/logo.png'' ''/static/logo.png''],
      stylesheets = [], scripts = [], fonts = []\<rparr>"

definition env_collide :: env where
  "env_collide = env_ok\<lparr>clock := (\<lambda>k. if k = 0 then 1700000125915 else 1700000179811)\<rparr>"

lemma colliding_unique:
  "removeDuplicates (flattenAssets colliding_assets) =
     [\<lparr>url = ''https://cdn.test/img/logo.png'', originalSrc = Some ''/img/logo.png'',
       originalHref = None, atype = ''images''\<rparr>,
      \<lparr>url = ''https://cdn.test/static/logo.png'', originalSrc = Some ''/static/logo.png'',
       originalHref = None, atype = ''images''\<rparr>]"
  by code_simp

lemma colliding_paths:
  "map_option pathname (parse_url ''https://cdn.test/img/logo.png'') = Some ''/img/logo.png''"
  "map_option pathname (parse_url ''https://cdn.test/static/logo.png'') = Some ''/static/logo.png''"
  by code_simp+

lemma colliding_names:
  "generateFilename 1700000125915 ''/img/logo.png'' ''images'' = ''logo-61af949a.png''"
  "generateFilename 1700000179811 ''/static/logo.png'' ''images'' = ''logo-61af949a.png''"
  by code_simp+

text \<open>
  C2, as stated, fails. The two URLs are distinct, and so are their paths and the clock
  readings, yet both get the file name \<open>logo-61af949a.png\<close>: the first eight digits of
  the two MD5 values agree. The second image is then taken for already downloaded (size
  0) and is never fetched. Two URLs that differ only in host or query and are named at
  the same clock reading collide in the same way, since only the path is hashed.
\<close>

theorem distinct_urls_same_filename:
  "map (\<lambda>(a, ans). (url a, case ans of Inl msg \<Rightarrow> None | Inr r \<Rightarrow> Some (r_filename r, r_size r)))
     (run_log env_collide ''out'' world0 (removeDuplicates (flattenAssets colliding_assets)))
   = [(''https://cdn.test/img/logo.png'', Some (''logo-61af949a.png'', 5)),
      (''https://cdn.test/static/logo.png'', Some (''logo-61af949a.png'', 0))]"
  using colliding_paths
  by (auto simp: colliding_unique colliding_names downloadSingleAsset_def date_now_def
        env_collide_def env_ok_def world0_def fileExists_def emit_def saveAsset_def
        getAssetPath_def path_join_def DIR_ASSETS_def Let_def split: option.splits)

text \<open>
  C2, amended. Two generated file names are distinct whenever their hash parts differ,
  that is, the first eight hexadecimal digits of the MD5 value of the URL's path followed
  by the clock reading. Nothing else of the URL enters the name.
\<close>

theorem distinct_hashes_distinct_filenames:
  assumes "take 8 (md5hex (p1 @ dec t1)) \<noteq> take 8 (md5hex (p2 @ dec t2))"
  shows "generateFilename t1 p1 ty1 \<noteq> generateFilename t2 p2 ty2"
proof
  assume eq: "generateFilename t1 p1 ty1 = generateFilename t2 p2 ty2"
  obtain b1 x1 where f1:
    "generateFilename t1 p1 ty1 = (b1 @ ''-'' @ take 8 (md5hex (p1 @ dec t1))) @ CHR ''.'' # x1"
    "CHR ''.'' \<notin> set x1"
    using generateFilename_parts by blast
  obtain b2 x2 where f2:
    "generateFilename t2 p2 ty2 = (b2 @ ''-'' @ take 8 (md5hex (p2 @ dec t2))) @ CHR ''.'' # x2"
    "CHR ''.'' \<notin> set x2"
    using generateFilename_parts by blast
  from eq f1 f2 have "b1 @ ''-'' @ take 8 (md5hex (p1 @ dec t1)) = b2 @ ''-'' @ take 8 (md5hex (p2 @ dec t2))"
    using split_last_dot by metis
  then have "(b1 @ ''-'') @ take 8 (md5hex (p1 @ dec t1)) = (b2 @ ''-'') @ take 8 (md5hex (p2 @ dec t2))"
    by simp
  then have "take 8 (md5hex (p1 @ dec t1)) = take 8 (md5hex (p2 @ dec t2))"
    by (subst (asm) append_eq_append_conv) (simp_all add: length_md5hex)
  with assms show False by simp
qed

theorem distinct_hashes_distinct_filenames_witness:
  "generateFilename 1700000000000 ''/logo.png'' ''images''
     \<noteq> generateFilename 1700000060000 ''/logo.png'' ''images''"
proof -
  have "take 8 (md5hex (''/logo.png'' @ dec 1700000000000))
          \<noteq> take 8 (md5hex (''/logo.png'' @ dec 1700000060000))"
    by code_simp
  then show ?thesis by (rule distinct_hashes_distinct_filenames)
qed

subsection \<open>Running the downloader again\<close>

text \<open>
  One image, downloaded by a first run into an empty directory; a second run over the
  directory the first one left, one minute later.
\<close>

definition one_image :: assets where
  "one_image =
     \<lparr>images = [img ''https://x.test/logo.png'' ''/logo.png''],
      stylesheets = [], scripts = [], fonts = []\<rparr>"

definition logo :: asset where
  "logo = \<lparr>url = ''https://x.test/logo.png'', originalSrc = Some ''/logo.png'',
            originalHref = None, atype = ''images''\<rparr>"

definition env_later :: env where
  "env_later = env_ok\<lparr>clock := (\<lambda>k. 1700000060000 + 1000 * int k)\<rparr>"

definition world_after_first_run :: world where
  "world_after_first_run =
     \<lparr>files = [''out/assets/images/logo-96fbc904.png''], ticks = 0, trace = []\<rparr>"

lemma one_image_unique: "removeDuplicates (flattenAssets one_image) = [logo]"
  by code_simp

lemma logo_path: "parse_url ''https://x.test/logo.png''
  = Some \<lparr>protocol = ''https:'', host = ''x.test'', hostname = ''x.test'', pathname = ''/logo.png''\<rparr>"
  by code_simp

lemma logo_names:
  "generateFilename 1700000000000 ''/logo.png'' ''images'' = ''logo-96fbc904.png''"
  "generateFilename 1700000060000 ''/logo.png'' ''images'' = ''logo-16778762.png''"
  by code_simp+

lemmas run_defs =
  downloadAndMapAssets_def downloadSingleAsset_def date_now_def fileExists_def emit_def
  saveAsset_def getAssetPath_def path_join_def DIR_ASSETS_def register_asset_def
  set_if_truthy_def obj_set_def Let_def

text \<open>
  C3 says that a second run over the same URL and output directory does not fetch again
  what the first run downloaded. The code checks whether the target file exists before
  it fetches, but the name of the target file contains a hash of the clock reading. Here
  the first run writes \<open>logo-96fbc904.png\<close>; the second run computes the name
  \<open>logo-16778762.png\<close> from its own clock reading, does not find that file, and
  fetches the image again, so the directory ends with two copies.
\<close>

theorem rerun_fetches_again:
  "files (snd (snd (downloadAndMapAssets env_ok ''out'' world0 one_image)))
     = files world_after_first_run
   \<and> downloadAndMapAssets env_later ''out'' world_after_first_run one_image =
       ([(''https://x.test/logo.png'', ''assets/images/logo-16778762.png''),
         (''/logo.png'', ''assets/images/logo-16778762.png'')],
        \<lparr>total = 1, downloaded = 1, failed = 0\<rparr>,
        \<lparr>files = [''out/assets/images/logo-16778762.png'', ''out/assets/images/logo-96fbc904.png''],
         ticks = 1,
         trace = [Fetch ''https://x.test/logo.png'',
                  WriteFile ''out/assets/images/logo-16778762.png'']\<rparr>)"
  by (simp add: run_defs one_image_unique logo_def logo_path logo_names
        env_later_def env_ok_def world0_def world_after_first_run_def)

text \<open>
  The branch that the existence check guards: an asset whose target file exists is not
  fetched. The call answers success with size 0 and the relative path of that file,
  leaves the files and the effects as they were, and the loop registers the asset and
  counts it in \<open>downloaded\<close>.
\<close>

lemma existing_target_not_refetched:
  assumes "parse_url (url a) = Some u"
      and "fileExists w (path_join [getAssetPath outputDir (atype a),
                generateFilename (clock e (ticks w)) (pathname u) (atype a)])"
  shows "\<exists>r w'. downloadSingleAsset e outputDir w a = (Inr r, w')
           \<and> r_success r \<and> r_size r = 0
           \<and> r_relativePath r = path_join [DIR_ASSETS, atype a, r_filename r]
           \<and> trace w' = trace w \<and> files w' = files w
           \<and> download_loop e outputDir (a # as) (m, s, w)
               = download_loop e outputDir as
                   (register_asset m a (r_relativePath r), s\<lparr>downloaded := Suc (downloaded s)\<rparr>, w')"
  using assms
  by (simp add: downloadSingleAsset_def date_now_def fileExists_def Let_def)

lemma existing_target_at_same_reading:
  "\<exists>r w'. downloadSingleAsset env_ok ''out'' world_after_first_run logo = (Inr r, w')
      \<and> r_success r \<and> r_size r = 0
      \<and> trace w' = trace world_after_first_run \<and> files w' = files world_after_first_run"
proof -
  have p: "parse_url (url logo) = Some \<lparr>protocol = ''https:'', host = ''x.test'', hostname = ''x.test'', pathname = ''/logo.png''\<rparr>"
    by (simp add: logo_def logo_path)
  have f: "fileExists world_after_first_run (path_join [getAssetPath ''out'' (atype logo),
             generateFilename (clock env_ok (ticks world_after_first_run))
               (pathname \<lparr>protocol = ''https:'', host = ''x.test'', hostname = ''x.test'', pathname = ''/logo.png''\<rparr>) (atype logo)])"
    by (simp add: fileExists_def world_after_first_run_def env_ok_def logo_def logo_names
          getAssetPath_def path_join_def DIR_ASSETS_def)
  from existing_target_not_refetched [OF p f, of "[]" "[]" "\<lparr>total = 1, downloaded = 0, failed = 0\<rparr>"]
  show ?thesis by blast
qed

section \<open>Properties of the scraper\<close>

subsection \<open>When a run succeeds\<close>

text \<open>\<open>scrape_succeeds\<close>: no step of the \<open>try\<close> block throws.\<close>

definition nav_ok :: "nav_result \<Rightarrow> bool" where
  "nav_ok r = (case r of NavResponse ok status statusText \<Rightarrow> ok | _ \<Rightarrow> False)"

definition scrape_succeeds :: "env \<Rightarrow> params \<Rightarrow> bool" where
  "scrape_succeeds e ps =
     (case parse_url (p_url ps) of
        None \<Rightarrow> False
      | Some u \<Rightarrow>
          protocol u \<in> set [''http:'', ''https:''] \<and> mkdir_error e = None \<and>
          launch_error e = None \<and> context_error e = None \<and>
          nav_ok (goto e (p_url ps)) \<and> extract_error e = None \<and>
          write_error e (path_join [p_outputDir ps, ''index.html'']) = None \<and>
          write_error e (path_join [p_outputDir ps, ''metadata.json'']) = None)"

lemma robots_messages:
  "str_includes ''Access blocked by robots.txt'' ''blocked''"
  "\<not> str_includes ''robotsFile.load is not a function'' ''blocked''"
  "\<not> str_includes ''Invalid URL'' ''blocked''"
  by code_simp+

text \<open>The robots step never throws and changes nothing.\<close>

lemma checkRobotsTxt_proceeds: "checkRobotsTxt e ps s = (None, s)"
  by (simp add: checkRobotsTxt_def RobotsFile_instance_load_def robots_catch_def
        robots_messages Let_def split: option.splits)

lemma run_steps_thrown:
  "fst (run_steps (f # fs) s) = None \<longleftrightarrow> fst (f s) = None \<and> fst (run_steps fs (snd (f s))) = None"
  by (cases "f s") (auto split: option.splits)

lemma run_steps_keeps:
  assumes "\<And>f s. f \<in> set fs \<Longrightarrow> P (snd (f s)) = P s"
  shows "P (snd (run_steps fs s)) = P s"
  using assms
proof (induction fs arbitrary: s)
  case Nil
  then show ?case by simp
next
  case (Cons f fs)
  obtain c s' where fs: "f s = (c, s')" by (cases "f s")
  have "P s' = P s" using Cons.prems [of f s] fs by simp
  moreover have "P (snd (run_steps fs s')) = P s'" using Cons by simp
  ultimately show ?case using fs by (cases c) auto
qed

text \<open>When each step throws.\<close>

lemma validateUrl_thrown:
  "fst (validateUrl ps s) = None \<longleftrightarrow>
     (\<exists>u. parse_url (p_url ps) = Some u \<and> protocol u \<in> set [''http:'', ''https:''])"
  by (auto simp: validateUrl_def split: option.splits)

lemma createDirectoryStructure_thrown:
  "fst (createDirectoryStructure e s) = None \<longleftrightarrow> mkdir_error e = None"
  by (auto simp: createDirectoryStructure_def Let_def split: option.splits)

lemma checkRobotsTxt_thrown: "fst (checkRobotsTxt e ps s) = None"
  by (simp add: checkRobotsTxt_proceeds)

lemma launchBrowser_thrown:
  "fst (launchBrowser e s) = None \<longleftrightarrow> launch_error e = None \<and> context_error e = None"
  by (auto simp: launchBrowser_def Let_def split: option.splits)

lemma scrapePage_thrown:
  "fst (scrapePage e ps s) = None \<longleftrightarrow> nav_ok (goto e (p_url ps)) \<and> extract_error e = None"
  by (auto simp: scrapePage_def nav_ok_def Let_def split: nav_result.splits option.splits)

lemma scrapePage_html:
  "fst (scrapePage e ps s) = None \<Longrightarrow> html (res (snd (scrapePage e ps s))) = Some (page_content e)"
  by (auto simp: scrapePage_def Let_def split: nav_result.splits if_splits option.splits)

lemma processAssets_thrown:
  "parse_url (p_url ps) = Some u \<Longrightarrow>
     fst ((if p_downloadAssets ps then processAssets e ps else skip) s) = None"
  by (auto simp: processAssets_def skip_def split: prod.splits)

lemma processAssets_html:
  "html (res (snd ((if p_downloadAssets ps then processAssets e ps else skip) s))) = html (res s)"
  by (auto simp: processAssets_def skip_def split: prod.splits option.splits)

lemma captureScreenshots_thrown:
  "parse_url (p_url ps) = Some u \<Longrightarrow>
     fst ((if p_takeScreenshots ps then scraper_captureScreenshots e ps else skip) s) = None"
  by (auto simp: scraper_captureScreenshots_def skip_def split: prod.splits)

lemma captureScreenshots_html:
  "html (res (snd ((if p_takeScreenshots ps then scraper_captureScreenshots e ps else skip) s)))
     = html (res s)"
  by (auto simp: scraper_captureScreenshots_def skip_def split: prod.splits option.splits)

lemma saveResults_thrown:
  "fst (saveResults e ps s) = None \<longleftrightarrow>
     html (res s) \<noteq> None \<and>
     write_error e (path_join [p_outputDir ps, ''index.html'']) = None \<and>
     write_error e (path_join [p_outputDir ps, ''metadata.json'']) = None"
  by (auto simp: saveResults_def saveFile_def Let_def split: option.splits)

lemma scrape_try_thrown: "fst (scrape_try e ps s) = None \<longleftrightarrow> scrape_succeeds e ps"
proof (cases "parse_url (p_url ps)")
  case None
  then show ?thesis
    by (simp add: scrape_try_def scrape_succeeds_def run_steps_thrown validateUrl_thrown
          del: run_steps.simps(2) split del: if_split)
next
  case (Some u)
  then show ?thesis
    unfolding scrape_try_def scrape_succeeds_def run_steps_thrown
    by (auto simp: validateUrl_thrown createDirectoryStructure_thrown
          checkRobotsTxt_thrown launchBrowser_thrown scrapePage_thrown
          processAssets_thrown [OF Some] captureScreenshots_thrown [OF Some]
          saveResults_thrown processAssets_html captureScreenshots_html scrapePage_html
          simp del: run_steps.simps(2) split del: if_split)
qed

text \<open>No step sets \<open>success\<close>.\<close>

lemma steps_keep_success:
  assumes "f \<in> set [validateUrl ps, createDirectoryStructure e, checkRobotsTxt e ps,
                     launchBrowser e, scrapePage e ps,
                     (if p_downloadAssets ps then processAssets e ps else skip),
                     (if p_takeScreenshots ps then scraper_captureScreenshots e ps else skip),
                     saveResults e ps]"
  shows "success (res (snd (f s))) = success (res s)"
proof -
  have 1: "success (res (snd (validateUrl ps s))) = success (res s)"
    by (auto simp: validateUrl_def split: option.splits)
  have 2: "success (res (snd (createDirectoryStructure e s))) = success (res s)"
    by (auto simp: createDirectoryStructure_def Let_def split: option.splits)
  have 3: "success (res (snd (checkRobotsTxt e ps s))) = success (res s)"
    by (simp add: checkRobotsTxt_proceeds)
  have 4: "success (res (snd (launchBrowser e s))) = success (res s)"
    by (auto simp: launchBrowser_def Let_def split: option.splits)
  have 5: "success (res (snd (scrapePage e ps s))) = success (res s)"
    by (auto simp: scrapePage_def Let_def split: nav_result.splits option.splits)
  have 6: "success (res (snd ((if p_downloadAssets ps then processAssets e ps else skip) s)))
             = success (res s)"
    by (auto simp: processAssets_def skip_def split: prod.splits option.splits)
  have 7: "success (res (snd ((if p_takeScreenshots ps then scraper_captureScreenshots e ps else skip) s)))
             = success (res s)"
    by (auto simp: scraper_captureScreenshots_def skip_def split: prod.splits option.splits)
  have 8: "success (res (snd (saveResults e ps s))) = success (res s)"
    by (auto simp: saveResults_def saveFile_def Let_def split: option.splits)
  from assms 1 2 3 4 5 6 7 8 show ?thesis by auto
qed

lemma scrape_try_keeps_success: "success (res (snd (scrape_try e ps s))) = success (res s)"
  unfolding scrape_try_def
  by (rule run_steps_keeps [where P = "\<lambda>s. success (res s)"]) (rule steps_keep_success)

lemma scrape_success_iff: "success (fst (scrape e ps w)) = scrape_succeeds e ps"
proof -
  obtain thrown s where t: "scrape_try e ps \<lparr>res = initial_result, wld = w\<lparr>ticks := Suc (ticks w)\<rparr>, browser_open = False\<rparr> = (thrown, s)"
    by (cases "scrape_try e ps \<lparr>res = initial_result, wld = w\<lparr>ticks := Suc (ticks w)\<rparr>, browser_open = False\<rparr>")
  have "success (res s) = False"
    using scrape_try_keeps_success [of e ps "\<lparr>res = initial_result, wld = w\<lparr>ticks := Suc (ticks w)\<rparr>, browser_open = False\<rparr>"] t
    by (simp add: initial_result_def)
  moreover have "thrown = None \<longleftrightarrow> scrape_succeeds e ps"
    using scrape_try_thrown [of e ps "\<lparr>res = initial_result, wld = w\<lparr>ticks := Suc (ticks w)\<rparr>, browser_open = False\<rparr>"] t
    by simp
  ultimately show ?thesis
    by (cases thrown) (simp_all add: scrape_def scrape_finish_def date_now_def t Let_def)
qed

subsection \<open>URL validation\<close>

text \<open>
  C6. If the URL parses and its scheme is neither \<open>http\<close> nor \<open>https\<close>, the run fails
  at validation: \<open>success\<close> and \<open>accessible\<close> are false, the message is the
  validation message behind the prefix of the \<open>catch\<close> block, and the run has had no
  effect on the outside world: no directory, no robots file, no browser, no navigation,
  no fetch and no file.
\<close>

theorem non_http_scheme_rejected:
  assumes "parse_url (p_url ps) = Some u"
      and "protocol u \<notin> set [''http:'', ''https:'']"
  shows "success (fst (scrape e ps w)) = False
       \<and> accessible (fst (scrape e ps w)) = False
       \<and> message (fst (scrape e ps w)) = ''Scraping error: Only HTTP and HTTPS URLs are supported''
       \<and> trace (snd (scrape e ps w)) = trace w
       \<and> files (snd (scrape e ps w)) = files w"
  using assms
  by (simp add: scrape_def scrape_try_def scrape_finish_def validateUrl_def date_now_def
        cleanup_def initial_result_def Let_def split del: if_split)

definition params_ftp :: params where
  "params_ftp = params_ok\<lparr>p_url := ''ftp://x.test/file.txt''\<rparr>"

lemma parse_ftp:
  "parse_url ''ftp://x.test/file.txt''
     = Some \<lparr>protocol = ''ftp:'', host = ''x.test'', hostname = ''x.test'', pathname = ''/file.txt''\<rparr>"
  by code_simp

theorem non_http_scheme_rejected_witness:
  "success (fst (scrape env_ok params_ftp world0)) = False
   \<and> accessible (fst (scrape env_ok params_ftp world0)) = False
   \<and> message (fst (scrape env_ok params_ftp world0))
       = ''Scraping error: Only HTTP and HTTPS URLs are supported''
   \<and> trace (snd (scrape env_ok params_ftp world0)) = []
   \<and> files (snd (scrape env_ok params_ftp world0)) = []"
proof -
  have p: "parse_url (p_url params_ftp)
     = Some \<lparr>protocol = ''ftp:'', host = ''x.test'', hostname = ''x.test'', pathname = ''/file.txt''\<rparr>"
    by (simp add: params_ftp_def params_ok_def parse_ftp)
  have q: "protocol \<lparr>protocol = ''ftp:'', host = ''x.test'', hostname = ''x.test'', pathname = ''/file.txt''\<rparr>
             \<notin> set [''http:'', ''https:'']"
    by simp
  from non_http_scheme_rejected [OF p q, of env_ok world0] show ?thesis
    by (simp add: world0_def)
qed

subsection \<open>Facts of the sample runs\<close>

lemma parse_page:
  "parse_url ''https://x.test/''
     = Some \<lparr>protocol = ''https:'', host = ''x.test'', hostname = ''x.test'', pathname = ''/''\<rparr>"
  by code_simp

lemma dec_samples:
  "dec 0 = ''0''" "dec 5000 = ''5000''" "dec 1700000000000 = ''1700000000000''"
  "dec 1700000004000 = ''1700000004000''"
  by code_simp+

lemmas scrape_defs =
  scrape_def scrape_try_def scrape_finish_def validateUrl_def createDirectoryStructure_def
  checkRobotsTxt_def RobotsFile_instance_load_def robots_catch_def launchBrowser_def
  scrapePage_def processAssets_def
  scraper_captureScreenshots_def saveResults_def saveFile_def skip_def cleanup_def
  initial_result_def

lemma three_unique:
  "removeDuplicates (flattenAssets three_images) =
     [\<lparr>url = ''https://x.test/a.png'', originalSrc = Some ''/a.png'', originalHref = None,
       atype = ''images''\<rparr>,
      \<lparr>url = ''https://x.test/b.png'', originalSrc = Some ''/b.png'', originalHref = None,
       atype = ''images''\<rparr>,
      \<lparr>url = ''https://x.test/c.png'', originalSrc = Some ''/c.png'', originalHref = None,
       atype = ''images''\<rparr>]"
  by code_simp

lemma three_paths:
  "parse_url ''https://x.test/a.png''
     = Some \<lparr>protocol = ''https:'', host = ''x.test'', hostname = ''x.test'', pathname = ''/a.png''\<rparr>"
  "parse_url ''https://x.test/b.png''
     = Some \<lparr>protocol = ''https:'', host = ''x.test'', hostname = ''x.test'', pathname = ''/b.png''\<rparr>"
  "parse_url ''https://x.test/c.png''
     = Some \<lparr>protocol = ''https:'', host = ''x.test'', hostname = ''x.test'', pathname = ''/c.png''\<rparr>"
  by code_simp+

lemma three_names:
  "generateFilename 1700000001000 ''/a.png'' ''images'' = ''a-21e1e0d8.png''"
  "generateFilename 1700000002000 ''/b.png'' ''images'' = ''b-4f7761f2.png''"
  "generateFilename 1700000003000 ''/c.png'' ''images'' = ''c-6b6873da.png''"
  by code_simp+

subsection \<open>Robots policy: a disallowed URL\<close>

text \<open>The sample site with a robots policy that disallows every URL.\<close>

definition env_disallow :: env where
  "env_disallow = env_ok\<lparr>robots_isAllowed := (\<lambda>u. False)\<rparr>"

lemma download_three_disallowed:
  "downloadAndMapAssets env_disallow ''out''
     \<lparr>files = [], ticks = Suc 0,
      trace = [MakeDirectories, LaunchBrowser, Navigate ''https://x.test/'']\<rparr> three_images
   = ([(''https://x.test/a.png'', ''assets/images/a-21e1e0d8.png''),
       (''/a.png'', ''assets/images/a-21e1e0d8.png''),
       (''https://x.test/b.png'', ''assets/images/b-4f7761f2.png''),
       (''/b.png'', ''assets/images/b-4f7761f2.png''),
       (''https://x.test/c.png'', ''assets/images/c-6b6873da.png''),
       (''/c.png'', ''assets/images/c-6b6873da.png'')],
      \<lparr>total = 3, downloaded = 3, failed = 0\<rparr>,
      \<lparr>files = [''out/assets/images/c-6b6873da.png'', ''out/assets/images/b-4f7761f2.png'',
                ''out/assets/images/a-21e1e0d8.png''],
       ticks = 4,
       trace = [MakeDirectories, LaunchBrowser, Navigate ''https://x.test/'',
                Fetch ''https://x.test/a.png'', WriteFile ''out/assets/images/a-21e1e0d8.png'',
                Fetch ''https://x.test/b.png'', WriteFile ''out/assets/images/b-4f7761f2.png'',
                Fetch ''https://x.test/c.png'', WriteFile ''out/assets/images/c-6b6873da.png'']\<rparr>)"
  by (simp add: run_defs three_unique three_paths three_names env_disallow_def env_ok_def)

text \<open>
  C7 says that a run with \<open>respectRobots\<close> set aborts when the robots policy disallows
  the URL. The robots step does throw \<open>Access blocked by robots.txt\<close> for a disallowed
  URL, but only after \<open>robotsFile.load\<close>, and that call throws first: the
  \<open>TypeError\<close> has no \<open>blocked\<close> in its text, the \<open>catch\<close> block logs a warning, and
  the run goes on. At a site that disallows every URL the run navigates, downloads the
  three images, takes both screenshots, writes the files and ends with \<open>success\<close> and
  \<open>scrapingAllowed\<close> set; the robots file is never requested.
\<close>

theorem robots_disallow_does_not_abort:
  "p_respectRobots params_ok
   \<and> robots_isAllowed env_disallow (p_url params_ok) = False
   \<and> success (fst (scrape env_disallow params_ok world0)) = True
   \<and> scrapingAllowed (fst (scrape env_disallow params_ok world0)) = True
   \<and> trace (snd (scrape env_disallow params_ok world0))
       = [MakeDirectories, LaunchBrowser, Navigate ''https://x.test/'',
          Fetch ''https://x.test/a.png'', WriteFile ''out/assets/images/a-21e1e0d8.png'',
          Fetch ''https://x.test/b.png'', WriteFile ''out/assets/images/b-4f7761f2.png'',
          Fetch ''https://x.test/c.png'', WriteFile ''out/assets/images/c-6b6873da.png'',
          Screenshot ''out/screenshots/x.test-desktop-1700000004000.png'',
          Screenshot ''out/screenshots/x.test-mobile-1700000004000.png'',
          WriteFile ''out/index.html'', WriteFile ''out/metadata.json'',
          CloseBrowser]"
proof -
  have e: "page_assets env_disallow = three_images" "mkdir_error env_disallow = None"
    "launch_error env_disallow = None" "context_error env_disallow = None"
    "goto env_disallow = (\<lambda>u. NavResponse True 200 ''OK'')" "extract_error env_disallow = None"
    "write_error env_disallow = (\<lambda>p. None)"
    "clock env_disallow = (\<lambda>k. 1700000000000 + 1000 * int k)"
    "desktop_shot_error env_disallow = None" "mobile_shot_error env_disallow = None"
    "robots_isAllowed env_disallow = (\<lambda>u. False)"
    by (simp_all add: env_disallow_def env_ok_def)
  show ?thesis
    by (simp add: scrape_defs date_now_def emit_def e params_ok_def world0_def parse_page
          download_three_disallowed captureScreenshots_def getScreenshotPath_def path_join_def
          DIR_SCREENSHOTS_def dec_samples Let_def)
qed

subsection \<open>Robots policy: a robots file that cannot be loaded\<close>











subsection \<open>Screenshots\<close>

definition env_desktop_fails :: env where
  "env_desktop_fails = env_ok\<lparr>desktop_shot_error := Some ''Target closed''\<rparr>"

definition env_mobile_fails :: env where
  "env_mobile_fails = env_ok\<lparr>mobile_shot_error := Some ''Target closed''\<rparr>"

text \<open>
  C4, as stated, fails. When the desktop capture throws, the mobile capture is not
  attempted and its slot stays empty, although it would have succeeded.
\<close>

theorem desktop_failure_empties_mobile_slot:
  "mobile_shot_error env_desktop_fails = None
   \<and> fst (captureScreenshots env_desktop_fails ''out'' ''x.test'' world0)
       = \<lparr>desktop = None, mobile = None\<rparr>
   \<and> fst (captureScreenshots env_ok ''out'' ''x.test'' world0)
       = \<lparr>desktop = Some ''out/screenshots/x.test-desktop-1700000000000.png'',
          mobile = Some ''out/screenshots/x.test-mobile-1700000000000.png''\<rparr>"
  by (simp add: captureScreenshots_def date_now_def env_desktop_fails_def env_ok_def world0_def
        getScreenshotPath_def path_join_def DIR_SCREENSHOTS_def emit_def dec_samples Let_def)

text \<open>
  C4, amended. Both captures stand under one guard. A failure of the desktop capture
  leaves both slots empty; a failure of the mobile capture leaves the mobile slot empty
  and the desktop slot filled; without failure both are filled. No screenshot failure
  changes whether the run succeeds.
\<close>

theorem screenshots_single_guard:
  "(desktop_shot_error e \<noteq> None \<longrightarrow>
      fst (captureScreenshots e outputDir hostName w) = \<lparr>desktop = None, mobile = None\<rparr>)
   \<and> (desktop_shot_error e = None \<and> mobile_shot_error e \<noteq> None \<longrightarrow>
        fst (captureScreenshots e outputDir hostName w)
          = \<lparr>desktop = Some (path_join [getScreenshotPath outputDir,
                                hostName @ ''-desktop-'' @ dec (clock e (ticks w)) @ ''.png'']),
             mobile = None\<rparr>)
   \<and> (desktop_shot_error e = None \<and> mobile_shot_error e = None \<longrightarrow>
        fst (captureScreenshots e outputDir hostName w)
          = \<lparr>desktop = Some (path_join [getScreenshotPath outputDir,
                                hostName @ ''-desktop-'' @ dec (clock e (ticks w)) @ ''.png'']),
             mobile = Some (path_join [getScreenshotPath outputDir,
                                hostName @ ''-mobile-'' @ dec (clock e (ticks w)) @ ''.png''])\<rparr>)
   \<and> success (fst (scrape (e\<lparr>desktop_shot_error := x, mobile_shot_error := y\<rparr>) ps w))
       = success (fst (scrape e ps w))"
  by (auto simp: captureScreenshots_def date_now_def Let_def scrape_success_iff
        scrape_succeeds_def split: option.splits)

theorem screenshots_single_guard_witness:
  "fst (captureScreenshots env_mobile_fails ''out'' ''x.test'' world0)
     = \<lparr>desktop = Some ''out/screenshots/x.test-desktop-1700000000000.png'',
        mobile = None\<rparr>
   \<and> success (fst (scrape env_mobile_fails params_ok world0)) = True"
proof -
  have ok: "scrape_succeeds env_ok params_ok"
    by (simp add: scrape_succeeds_def nav_ok_def env_ok_def params_ok_def parse_page)
  have e: "env_mobile_fails = env_ok\<lparr>desktop_shot_error := None, mobile_shot_error := Some ''Target closed''\<rparr>"
    by (simp add: env_mobile_fails_def env_ok_def)
  from screenshots_single_guard
         [where e = env_mobile_fails and outputDir = "''out''" and hostName = "''x.test''" and w = world0]
  have "fst (captureScreenshots env_mobile_fails ''out'' ''x.test'' world0)
     = \<lparr>desktop = Some ''out/screenshots/x.test-desktop-1700000000000.png'',
        mobile = None\<rparr>"
    by (simp add: env_mobile_fails_def env_ok_def world0_def getScreenshotPath_def path_join_def
          DIR_SCREENSHOTS_def dec_samples)
  moreover from screenshots_single_guard
         [where e = env_ok and x = None and y = "Some ''Target closed''" and ps = params_ok and w = world0]
  have "success (fst (scrape env_mobile_fails params_ok world0)) = True"
    using ok by (simp add: e scrape_success_iff)
  ultimately show ?thesis by simp
qed

subsection \<open>Counting the downloads\<close>

text \<open>
  The counters of the downloader: every asset that \<open>removeDuplicates\<close> keeps is counted
  once, as downloaded or as failed, and a failure does not end the loop.
\<close>

lemma downloadAndMapAssets_counts:
  assumes "downloadAndMapAssets e outputDir w extracted = (mapping, dl, w')"
  shows "total dl = length (removeDuplicates (flattenAssets extracted))
       \<and> downloaded dl + failed dl = total dl"
  using download_loop_stats [of e outputDir "removeDuplicates (flattenAssets extracted)" "[]"
          "\<lparr>total = length (removeDuplicates (flattenAssets extracted)), downloaded = 0, failed = 0\<rparr>"
          w mapping dl w'] assms
  by (simp add: downloadAndMapAssets_def Let_def)

definition env_404 :: env where
  "env_404 =
     env_ok\<lparr>fetch := (\<lambda>u. if u = ''https://x.test/b.png''
                            then Response 404 ''Not Found'' (Inr [])
                            else Response 200 ''OK'' (Inr ''bytes''))\<rparr>"

lemma download_three_with_404:
  "downloadAndMapAssets env_404 ''out''
     \<lparr>files = [], ticks = Suc 0,
      trace = [MakeDirectories, LaunchBrowser,
               Navigate ''https://x.test/'']\<rparr> three_images
   = ([(''https://x.test/a.png'', ''assets/images/a-21e1e0d8.png''),
       (''/a.png'', ''assets/images/a-21e1e0d8.png''),
       (''https://x.test/c.png'', ''assets/images/c-6b6873da.png''),
       (''/c.png'', ''assets/images/c-6b6873da.png'')],
      \<lparr>total = 3, downloaded = 2, failed = 1\<rparr>,
      \<lparr>files = [''out/assets/images/c-6b6873da.png'', ''out/assets/images/a-21e1e0d8.png''],
       ticks = 4,
       trace = [MakeDirectories, LaunchBrowser,
                Navigate ''https://x.test/'',
                Fetch ''https://x.test/a.png'', WriteFile ''out/assets/images/a-21e1e0d8.png'',
                Fetch ''https://x.test/b.png'',
                Fetch ''https://x.test/c.png'', WriteFile ''out/assets/images/c-6b6873da.png'']\<rparr>)"
  by (simp add: run_defs three_unique three_paths three_names env_404_def env_ok_def)

text \<open>
  C5 at its own example: three images, the second answers 404. The downloader returns
  \<open>total = 3\<close>, \<open>downloaded = 2\<close>, \<open>failed = 1\<close> and the run succeeds, but
  \<open>processAssets\<close> spreads these counters into \<open>result.statistics\<close> under their own
  keys: \<open>totalAssets\<close>, \<open>downloadedAssets\<close> and \<open>failedAssets\<close> stay 0, and the
  message reports 0 of 0 assets. \<open>src/cli.js\<close> copies the counters field by field.
\<close>

theorem one_404_among_three_images:
  "stats (fst (scrape env_404 params_ok world0))
     = \<lparr>totalAssets = 0, downloadedAssets = 0, failedAssets = 0, processingTime = 5000,
        key_total = Some 3, key_downloaded = Some 2, key_failed = Some 1\<rparr>
   \<and> success (fst (scrape env_404 params_ok world0)) = True
   \<and> message (fst (scrape env_404 params_ok world0))
       = ''Successfully scraped page and processed 0/0 assets in 5000ms''"
proof -
  have e: "page_assets env_404 = three_images" "mkdir_error env_404 = None"
    "robots_isAllowed env_404 = (\<lambda>u. True)"
    "launch_error env_404 = None" "context_error env_404 = None"
    "goto env_404 = (\<lambda>u. NavResponse True 200 ''OK'')" "extract_error env_404 = None"
    "write_error env_404 = (\<lambda>p. None)" "clock env_404 = (\<lambda>k. 1700000000000 + 1000 * int k)"
    "desktop_shot_error env_404 = None" "mobile_shot_error env_404 = None"
    by (simp_all add: env_404_def env_ok_def)
  show ?thesis
    by (simp add: scrape_defs date_now_def emit_def e params_ok_def world0_def parse_page
          download_three_with_404 captureScreenshots_def dec_samples Let_def)
qed

end
